theory Spec2Isabelle
  imports Complex_Main "HOL-Library.Sublist" "HOL-Library.Code_Target_Nat"
begin

section \<open>The OBD-II telemetry engine of carHUD (class OBDService)\<close>

text \<open>
  A shallow embedding of \<^verbatim>\<open>class OBDService\<close> (the second part of
  \<^verbatim>\<open>src/src/components/CompassHUD.tsx\<close>, lines 180 to 736): the PID decoder
  \<^verbatim>\<open>parseOBDResponse\<close>, the frame assembler \<^verbatim>\<open>handleResponse\<close>, the adapter
  initialisation, the polling timer, \<^verbatim>\<open>disconnect\<close>, \<^verbatim>\<open>subscribe\<close> and
  \<^verbatim>\<open>notifyListeners\<close>.

  Conventions of the model.
  \<^item> A JavaScript string is a \<open>jsstring\<close>: the list of its UTF-16 code units, each a
    natural number. \<open>str\<close> turns a literal of the source into one. What a
    notification of the adapter carries is a list of bytes, a \<open>string\<close> of HOL.
  \<^item> Two functions of the JavaScript engine work from tables and code that are not
    in the repository, and are parameters of the model: \<open>upper\<close>, the capitals that
    \<^verbatim>\<open>toUpperCase\<close> gives for a run of code units outside ASCII (a run may grow: the
    sharp s becomes \<^verbatim>\<open>SS\<close>; on ASCII \<^verbatim>\<open>toUpperCase\<close> is modelled here), and \<open>toText\<close>,
    the decoder \<^verbatim>\<open>Buffer.from(v, 'base64').toString('utf-8')\<close> from the bytes that the
    base64 value encodes to text. The theorems are stated for every \<open>upper\<close> and
    \<open>toText\<close>; the examples compute with \<open>latin1Upper\<close> and \<open>utf8Text\<close>.
  \<^item> A JavaScript number is a \<open>jsnum\<close>: \<open>NaN\<close> or an exact rational. On every
    integer that \<^verbatim>\<open>parseInt\<close> returns for a string of two characters (-15 to 255, and
    \<open>256 * A + B\<close> of two of them) the double-precision results of the decoder's
    expressions agree with the exact ones: the arguments of \<^verbatim>\<open>Math.round\<close> land on the
    same side of every half, and the final division by ten gives the double nearest to
    the exact quotient. Negative zero is not told apart from zero.
  \<^item> Objects have an identity: the snapshots live in a store, \<open>heap\<close>, and
    \<^verbatim>\<open>this.data\<close> is an address.
  \<^item> An awaited promise that rejects is an \<open>error\<close> returned next to the state;
    the transport's answers (does a write succeed, does the cancellation succeed) are
    parameters.
  \<^item> A listener is known by a number (the identity of the function). What a listener
    does when it is called, beyond keeping the snapshot it was given, is to call
    unsubscribe handles: \<open>react l\<close> lists the listeners whose handles \<open>l\<close> calls.
  \<^item> \<open>trace\<close> is the log of what the service did to its environment and of each call
    of the decoder; it is not a field of the class.
  \<^item> The polling timer is a sequence of moments: the timer fires, or an awaited write
    resolves and the run of the callback that waited for it goes on. The timer fires
    whether or not earlier runs have ended. The other methods run from their start to
    their end with nothing of the service running in between. A listener does not
    throw.
\<close>

subsection \<open>Strings\<close>

type_synonym jsstring = "nat list"

definition cu :: "char \<Rightarrow> nat" where
  "cu c = of_char c"

definition str :: "string \<Rightarrow> jsstring" where
  "str s = map cu s"

text \<open>
  The white space of \<^verbatim>\<open>\s\<close>, of \<^verbatim>\<open>trim\<close> and of \<^verbatim>\<open>parseInt\<close>: the white space and
  the line terminators of ECMAScript. The class \<^verbatim>\<open>[\s\r\n]\<close> of the source is
  \<^verbatim>\<open>\s\<close>.
\<close>

definition isSpace :: "nat \<Rightarrow> bool" where
  "isSpace c \<longleftrightarrow>
     c \<in> set [0x09, 0x0A, 0x0B, 0x0C, 0x0D, 0x20, 0xA0, 0x1680, 0x2028, 0x2029, 0x202F,
               0x205F, 0x3000, 0xFEFF] \<or>
     (0x2000 \<le> c \<and> c \<le> 0x200A)"

text \<open>
  \<^verbatim>\<open>String.prototype.toUpperCase\<close>. A code unit of ASCII is a character of its own,
  and a small letter becomes its capital. A longest run of code units outside ASCII
  is handed to \<open>upper\<close>.
\<close>

definition upperAscii :: "nat \<Rightarrow> nat" where
  "upperAscii c = (if 0x61 \<le> c \<and> c \<le> 0x7A then c - 0x20 else c)"

function toUpperCase :: "(jsstring \<Rightarrow> jsstring) \<Rightarrow> jsstring \<Rightarrow> jsstring" where
  "toUpperCase upper [] = []"
| "toUpperCase upper (c # cs) =
     (if c < 0x80 then upperAscii c # toUpperCase upper cs
      else upper (c # takeWhile (\<lambda>x. 0x80 \<le> x) cs) @
           toUpperCase upper (dropWhile (\<lambda>x. 0x80 \<le> x) cs))"
  by pat_completeness auto

termination
  by (relation "measure (\<lambda>(upper, s). length s)")
    (auto simp add: le_imp_less_Suc length_dropWhile_le)

text \<open>\<^verbatim>\<open>String.prototype.trim\<close>.\<close>

definition trim :: "jsstring \<Rightarrow> jsstring" where
  "trim s = rev (dropWhile isSpace (rev (dropWhile isSpace s)))"

text \<open>
  \<^verbatim>\<open>s.split(sep)\<close> for a separator of one character: the segments between the
  separators, the empty ones included, so that \<^verbatim>\<open>"a>b>".split(">")\<close> is
  \<^verbatim>\<open>["a", "b", ""]\<close>.
\<close>

fun split_str :: "nat \<Rightarrow> jsstring \<Rightarrow> jsstring list" where
  "split_str sep [] = [[]]"
| "split_str sep (c # cs) =
     (if c = sep then [] # split_str sep cs
      else (case split_str sep cs of
              w # ws \<Rightarrow> (c # w) # ws
            | [] \<Rightarrow> [[c]]))"

text \<open>\<^verbatim>\<open>s.startsWith(p)\<close>.\<close>

definition startsWith :: "jsstring \<Rightarrow> jsstring \<Rightarrow> bool" where
  "startsWith s p \<longleftrightarrow> take (length p) s = p"
subsection \<open>Numbers\<close>

datatype jsnum = NaN | Num rat

fun jadd :: "jsnum \<Rightarrow> jsnum \<Rightarrow> jsnum" where
  "jadd (Num a) (Num b) = Num (a + b)"
| "jadd _ _ = NaN"

fun jsub :: "jsnum \<Rightarrow> jsnum \<Rightarrow> jsnum" where
  "jsub (Num a) (Num b) = Num (a - b)"
| "jsub _ _ = NaN"

fun jmul :: "jsnum \<Rightarrow> jsnum \<Rightarrow> jsnum" where
  "jmul (Num a) (Num b) = Num (a * b)"
| "jmul _ _ = NaN"

text \<open>
  Division. Every divisor in the class is a non-zero literal; a zero divisor, which
  gives an infinity or NaN in JavaScript, does not occur and is not modelled.
\<close>

fun jdiv :: "jsnum \<Rightarrow> jsnum \<Rightarrow> jsnum" where
  "jdiv (Num a) (Num b) = Num (a / b)"
| "jdiv _ _ = NaN"

text \<open>\<^verbatim>\<open>Math.round\<close>: the nearest integer, a half going up.\<close>

fun Math_round :: "jsnum \<Rightarrow> jsnum" where
  "Math_round (Num a) = Num (of_int \<lfloor>a + 1 / 2\<rfloor>)"
| "Math_round NaN = NaN"

definition hexDigit :: "nat \<Rightarrow> nat option" where
  "hexDigit c =
     map_of (zip (str ''0123456789ABCDEF'') [0 ..< 16] @ zip (str ''abcdef'') [10 ..< 16]) c"

text \<open>
  \<^verbatim>\<open>parseInt(s, 16)\<close>: leading white space is skipped, a sign is read, a prefix
  \<^verbatim>\<open>0x\<close> or \<^verbatim>\<open>0X\<close> is dropped, and the longest run of hexadecimal digits that
  follows is the value; NaN when that run is empty.
\<close>

definition hexValue :: "jsstring \<Rightarrow> nat" where
  "hexValue ds = foldl (\<lambda>acc c. 16 * acc + (case hexDigit c of Some d \<Rightarrow> d | None \<Rightarrow> 0)) 0 ds"

definition parseInt16 :: "jsstring \<Rightarrow> jsnum" where
  "parseInt16 s =
     (let s1 = dropWhile isSpace s;
          neg = (take 1 s1 = str ''-'');
          s2 = (if take 1 s1 = str ''-'' \<or> take 1 s1 = str ''+'' then drop 1 s1 else s1);
          s3 = (if take 2 s2 = str ''0x'' \<or> take 2 s2 = str ''0X'' then drop 2 s2 else s2);
          z = takeWhile (\<lambda>c. hexDigit c \<noteq> None) s3
      in if z = [] then NaN
         else if neg then Num (- of_nat (hexValue z))
         else Num (of_nat (hexValue z)))"
subsection \<open>The snapshot\<close>

text \<open>\<^verbatim>\<open>interface OBDData\<close> and \<^verbatim>\<open>INITIAL_OBD_DATA\<close>.\<close>

record OBDData =
  rpm :: jsnum
  speed :: jsnum
  coolantTemp :: jsnum
  engineLoad :: jsnum
  throttlePosition :: jsnum
  fuelLevel :: jsnum
  fuelRate :: jsnum
  fuelPressure :: jsnum
  intakeAirTemp :: jsnum
  boostPressure :: jsnum
  mafRate :: jsnum
  barometricPressure :: jsnum
  oilTemp :: jsnum
  ambientTemp :: jsnum
  actualTorque :: jsnum
  referenceTorque :: jsnum
  acceleratorPosition :: jsnum
  egrCommanded :: jsnum
  egrError :: jsnum
  batteryVoltage :: jsnum
  runTime :: jsnum
  isConnected :: bool
  deviceName :: jsstring

definition INITIAL_OBD_DATA :: OBDData where
  "INITIAL_OBD_DATA =
     \<lparr> rpm = Num 0, speed = Num 0, coolantTemp = Num 0, engineLoad = Num 0,
       throttlePosition = Num 0, fuelLevel = Num 0, fuelRate = Num 0, fuelPressure = Num 0,
       intakeAirTemp = Num 0, boostPressure = Num 0, mafRate = Num 0,
       barometricPressure = Num 0, oilTemp = Num 0, ambientTemp = Num 0,
       actualTorque = Num 0, referenceTorque = Num 0, acceleratorPosition = Num 0,
       egrCommanded = Num 0, egrError = Num 0, batteryVoltage = Num 0, runTime = Num 0,
       isConnected = False, deviceName = [] \<rparr>"

subsection \<open>The PID decoder\<close>

text \<open>The three helpers declared inside \<^verbatim>\<open>parseOBDResponse\<close>.\<close>

definition parsePercent :: "jsstring \<Rightarrow> jsnum" where
  "parsePercent hex = Math_round (jdiv (jmul (parseInt16 hex) (Num 100)) (Num 255))"

definition parseTemp :: "jsstring \<Rightarrow> jsnum" where
  "parseTemp hex = jsub (parseInt16 hex) (Num 40)"

definition parseTwoBytes :: "jsstring \<Rightarrow> jsnum" where
  "parseTwoBytes hex =
     (let A = parseInt16 (take 2 hex);
          B = parseInt16 (take 2 (drop 2 hex))
      in jadd (jmul (Num 256) A) B)"

text \<open>
  The \<^verbatim>\<open>switch (pid)\<close> of \<^verbatim>\<open>parseOBDResponse\<close>, case by case in the order of the
  source, as a function of the snapshot it assigns to. \<^verbatim>\<open>dataBytes.substring(0, 2)\<close>
  is \<open>take 2 dataBytes\<close>.
\<close>

definition decodePid :: "jsstring \<Rightarrow> jsstring \<Rightarrow> OBDData \<Rightarrow> OBDData" where
  "decodePid pid dataBytes d =
    (if pid = str ''0C'' then
       (if length dataBytes \<ge> 4
        then d\<lparr>rpm := Math_round (jdiv (parseTwoBytes dataBytes) (Num 4))\<rparr> else d)
     else if pid = str ''0D'' then
       (if length dataBytes \<ge> 2
        then d\<lparr>speed := parseInt16 (take 2 dataBytes)\<rparr> else d)
     else if pid = str ''05'' then
       (if length dataBytes \<ge> 2
        then d\<lparr>coolantTemp := parseTemp (take 2 dataBytes)\<rparr> else d)
     else if pid = str ''04'' then
       (if length dataBytes \<ge> 2
        then d\<lparr>engineLoad := parsePercent (take 2 dataBytes)\<rparr> else d)
     else if pid = str ''11'' then
       (if length dataBytes \<ge> 2
        then d\<lparr>throttlePosition := parsePercent (take 2 dataBytes)\<rparr> else d)
     else if pid = str ''2F'' then
       (if length dataBytes \<ge> 2
        then d\<lparr>fuelLevel := parsePercent (take 2 dataBytes)\<rparr> else d)
     else if pid = str ''5E'' then
       (if length dataBytes \<ge> 4
        then d\<lparr>fuelRate :=
               jdiv (Math_round (jmul (jdiv (parseTwoBytes dataBytes) (Num 20)) (Num 10)))
                 (Num 10)\<rparr>
        else d)
     else if pid = str ''0A'' then
       (if length dataBytes \<ge> 2
        then d\<lparr>fuelPressure := jmul (parseInt16 (take 2 dataBytes)) (Num 3)\<rparr> else d)
     else if pid = str ''0B'' then
       (if length dataBytes \<ge> 2
        then d\<lparr>boostPressure := parseInt16 (take 2 dataBytes)\<rparr> else d)
     else if pid = str ''10'' then
       (if length dataBytes \<ge> 4
        then d\<lparr>mafRate :=
               jdiv (Math_round (jmul (jdiv (parseTwoBytes dataBytes) (Num 100)) (Num 10)))
                 (Num 10)\<rparr>
        else d)
     else if pid = str ''0F'' then
       (if length dataBytes \<ge> 2
        then d\<lparr>intakeAirTemp := parseTemp (take 2 dataBytes)\<rparr> else d)
     else if pid = str ''33'' then
       (if length dataBytes \<ge> 2
        then d\<lparr>barometricPressure := parseInt16 (take 2 dataBytes)\<rparr> else d)
     else if pid = str ''5C'' then
       (if length dataBytes \<ge> 2
        then d\<lparr>oilTemp := parseTemp (take 2 dataBytes)\<rparr> else d)
     else if pid = str ''46'' then
       (if length dataBytes \<ge> 2
        then d\<lparr>ambientTemp := parseTemp (take 2 dataBytes)\<rparr> else d)
     else if pid = str ''62'' then
       (if length dataBytes \<ge> 2
        then d\<lparr>actualTorque := jsub (parseInt16 (take 2 dataBytes)) (Num 125)\<rparr> else d)
     else if pid = str ''63'' then
       (if length dataBytes \<ge> 4
        then d\<lparr>referenceTorque := parseTwoBytes dataBytes\<rparr> else d)
     else if pid = str ''49'' then
       (if length dataBytes \<ge> 2
        then d\<lparr>acceleratorPosition := parsePercent (take 2 dataBytes)\<rparr> else d)
     else if pid = str ''2C'' then
       (if length dataBytes \<ge> 2
        then d\<lparr>egrCommanded := parsePercent (take 2 dataBytes)\<rparr> else d)
     else if pid = str ''2D'' then
       (if length dataBytes \<ge> 2
        then d\<lparr>egrError :=
               (let A = parseInt16 (take 2 dataBytes)
                in Math_round (jdiv (jmul (jsub A (Num 128)) (Num 100)) (Num 128)))\<rparr>
        else d)
     else if pid = str ''42'' then
       (if length dataBytes \<ge> 4
        then d\<lparr>batteryVoltage :=
               jdiv (Math_round (jdiv (parseTwoBytes dataBytes) (Num 100))) (Num 10)\<rparr>
        else d)
     else if pid = str ''1F'' then
       (if length dataBytes \<ge> 4
        then d\<lparr>runTime := parseTwoBytes dataBytes\<rparr> else d)
     else d)"

text \<open>
  The head of \<^verbatim>\<open>parseOBDResponse\<close>: \<^verbatim>\<open>clean\<close>, \<^verbatim>\<open>pid\<close> and \<^verbatim>\<open>dataBytes\<close>.
\<close>

definition clean :: "(jsstring \<Rightarrow> jsstring) \<Rightarrow> jsstring \<Rightarrow> jsstring" where
  "clean upper response = toUpperCase upper (filter (\<lambda>c. \<not> isSpace c) response)"

definition pidOf :: "(jsstring \<Rightarrow> jsstring) \<Rightarrow> jsstring \<Rightarrow> jsstring" where
  "pidOf upper response = take 2 (drop 2 (clean upper response))"

definition dataBytesOf :: "(jsstring \<Rightarrow> jsstring) \<Rightarrow> jsstring \<Rightarrow> jsstring" where
  "dataBytesOf upper response = drop 4 (clean upper response)"

subsection \<open>The service\<close>

text \<open>
  What the service does to its environment, in order: a call of the decoder with its
  argument, a call of a listener with the address of the snapshot it is given, a write
  to the adapter that the transport accepts (the command with its carriage return,
  before the encoding as UTF-8 and base64), and a delay in milliseconds.
\<close>

datatype event = Decode jsstring | Delivered nat nat | Wrote jsstring | Delayed nat

text \<open>
  The rejections of the BLE library's promises that the class awaits:
  \<^verbatim>\<open>writeWithResponse\<close> and \<^verbatim>\<open>cancelConnection\<close>. The class defines no error of its
  own.
\<close>

datatype error = WriteRejected | CancelRejected

text \<open>
  The variables \<^verbatim>\<open>priorityIndex\<close>, \<^verbatim>\<open>secondaryIndex\<close> and \<^verbatim>\<open>cycleCount\<close> that the
  timer's callback closes over, and the runs of the callback that are waiting for
  their write to resolve, the oldest first, each with the branch of the \<^verbatim>\<open>if\<close> in
  which it waits.
\<close>

datatype branch = Priority | Secondary

record poller =
  priorityIndex :: nat
  secondaryIndex :: nat
  cycleCount :: nat
  waiting :: "branch list"

text \<open>
  The fields of \<^verbatim>\<open>OBDService\<close> that the modelled methods use. \<open>device\<close> holds the
  name of the connected device, \<open>writeCharacteristic\<close> the identifier of the
  characteristic, \<open>pollingInterval\<close> the running timer with the variables of its
  callback. \<open>heap\<close> and \<open>fresh\<close> are the object store and its next unused address.
\<close>

record service =
  device :: "jsstring option"
  writeCharacteristic :: "jsstring option"
  data :: nat
  listeners :: "nat list"
  pollingInterval :: "poller option"
  responseBuffer :: jsstring
  heap :: "nat \<Rightarrow> OBDData"
  fresh :: nat
  trace :: "event list"

text \<open>An object literal \<^verbatim>\<open>{ ...v }\<close>: a new object with the fields of \<open>v\<close>.\<close>

definition alloc :: "OBDData \<Rightarrow> service \<Rightarrow> nat \<times> service" where
  "alloc v s = (fresh s, s\<lparr>heap := (heap s)(fresh s := v), fresh := Suc (fresh s)\<rparr>)"

text \<open>The object \<^verbatim>\<open>this.data\<close>, read now.\<close>

definition snapshot :: "service \<Rightarrow> OBDData" where
  "snapshot s = heap s (data s)"

text \<open>
  The closure that \<^verbatim>\<open>subscribe\<close> returns:
  \<^verbatim>\<open>this.listeners = this.listeners.filter(l => l !== listener)\<close>. It builds a new
  array and leaves the old one as it was.
\<close>

definition unsubscribe :: "nat \<Rightarrow> service \<Rightarrow> service" where
  "unsubscribe listener s = s\<lparr>listeners := filter (\<lambda>l. l \<noteq> listener) (listeners s)\<rparr>"

text \<open>
  A call \<^verbatim>\<open>listener(x)\<close>, \<open>x\<close> the object at address \<open>a\<close>: the listener keeps what it
  was given, then calls the unsubscribe handles of \<open>react listener\<close>.
\<close>

definition callListener :: "(nat \<Rightarrow> nat list) \<Rightarrow> nat \<Rightarrow> nat \<Rightarrow> service \<Rightarrow> service" where
  "callListener react listener a s =
     foldl (\<lambda>st h. unsubscribe h st) (s\<lparr>trace := trace s @ [Delivered listener a]\<rparr>)
       (react listener)"

text \<open>
  \<^verbatim>\<open>this.listeners.forEach(listener => listener({ ...this.data }))\<close>. \<^verbatim>\<open>forEach\<close>
  walks the array that \<^verbatim>\<open>this.listeners\<close> held when it was called, up to the length it
  had then; \<^verbatim>\<open>unsubscribe\<close> assigns a new array to the field and \<^verbatim>\<open>subscribe\<close> only
  appends, so the walk is over the list as it was at the start: \<open>deliverAll\<close> is the
  walk over a list \<open>ls\<close>. Each call gets an object literal of its own.
\<close>

definition deliverAll :: "(nat \<Rightarrow> nat list) \<Rightarrow> nat list \<Rightarrow> service \<Rightarrow> service" where
  "deliverAll react ls s =
     foldl (\<lambda>st listener.
              (case alloc (heap st (data st)) st of
                 (a, st1) \<Rightarrow> callListener react listener a st1))
       s ls"

definition notifyListeners :: "(nat \<Rightarrow> nat list) \<Rightarrow> service \<Rightarrow> service" where
  "notifyListeners react s = deliverAll react (listeners s) s"

text \<open>
  \<^verbatim>\<open>subscribe\<close>: \<^verbatim>\<open>this.listeners.push(listener); listener(this.data)\<close>. The listener
  is given \<^verbatim>\<open>this.data\<close> itself. The handle it returns is \<open>unsubscribe listener\<close>.
\<close>

definition subscribe :: "(nat \<Rightarrow> nat list) \<Rightarrow> nat \<Rightarrow> service \<Rightarrow> service" where
  "subscribe react listener s =
     (let s1 = s\<lparr>listeners := listeners s @ [listener]\<rparr>
      in callListener react listener (data s1) s1)"

text \<open>\<^verbatim>\<open>getData\<close>: \<^verbatim>\<open>return { ...this.data }\<close>.\<close>

definition getData :: "service \<Rightarrow> nat \<times> service" where
  "getData s = alloc (heap s (data s)) s"

text \<open>
  \<^verbatim>\<open>parseOBDResponse\<close>. The assignments of the switch go to the fields of the object
  \<^verbatim>\<open>this.data\<close>; \<^verbatim>\<open>notifyListeners\<close> is called whenever the cleaned response starts
  with 41, whatever the switch did.
\<close>

definition parseOBDResponse ::
  "(jsstring \<Rightarrow> jsstring) \<Rightarrow> (nat \<Rightarrow> nat list) \<Rightarrow> jsstring \<Rightarrow> service \<Rightarrow> service" where
  "parseOBDResponse upper react response s =
     (let s0 = s\<lparr>trace := trace s @ [Decode response]\<rparr>
      in if \<not> startsWith (clean upper response) (str ''41'') then s0
         else notifyListeners react
                (s0\<lparr>heap := (heap s0)(data s0 :=
                       decodePid (pidOf upper response) (dataBytesOf upper response)
                         (heap s0 (data s0)))\<rparr>))"

text \<open>
  \<^verbatim>\<open>handleResponse\<close>. \<open>bytes\<close> are the bytes of one notification, which the source
  gets as their base64 encoding; each notification is decoded to text on its own,
  before the text is appended to the buffer.
\<close>

definition handleResponse ::
  "(string \<Rightarrow> jsstring) \<Rightarrow> (jsstring \<Rightarrow> jsstring) \<Rightarrow> (nat \<Rightarrow> nat list) \<Rightarrow> string \<Rightarrow>
     service \<Rightarrow> service" where
  "handleResponse toText upper react bytes s =
     (let response = toText bytes;
          s1 = s\<lparr>responseBuffer := responseBuffer s @ response\<rparr>
      in if cu (CHR ''>'') \<in> set (responseBuffer s1)
         then (foldl (\<lambda>st line. parseOBDResponse upper react (trim line) st) s1
                 (split_str (cu (CHR ''>'')) (responseBuffer s1)))\<lparr>responseBuffer := []\<rparr>
         else s1)"

subsection \<open>Commands, initialisation, disconnecting\<close>

text \<open>
  \<^verbatim>\<open>sendCommand\<close>: nothing happens without a write characteristic; otherwise the
  command and a carriage return are written and the write is awaited. \<open>writeOk\<close> says
  which writes the transport accepts.
\<close>

definition CR :: jsstring where
  "CR = [0x0D]"

definition sendCommand ::
  "(jsstring \<Rightarrow> bool) \<Rightarrow> jsstring \<Rightarrow> service \<Rightarrow> error option \<times> service" where
  "sendCommand writeOk command s =
     (case writeCharacteristic s of
        None \<Rightarrow> (None, s)
      | Some c \<Rightarrow>
          if writeOk (command @ CR)
          then (None, s\<lparr>trace := trace s @ [Wrote (command @ CR)]\<rparr>)
          else (Some WriteRejected, s))"

definition delay :: "nat \<Rightarrow> service \<Rightarrow> service" where
  "delay ms s = s\<lparr>trace := trace s @ [Delayed ms]\<rparr>"

text \<open>
  \<^verbatim>\<open>await a; rest\<close>: when the awaited promise rejects, the rest is not run and the
  rejection is the result.
\<close>

definition andThen ::
  "error option \<times> service \<Rightarrow> (service \<Rightarrow> error option \<times> service) \<Rightarrow> error option \<times> service"
  where
  "andThen r f = (case r of (None, s) \<Rightarrow> f s | (Some e, s) \<Rightarrow> (Some e, s))"

definition initializeAdapter ::
  "(jsstring \<Rightarrow> bool) \<Rightarrow> service \<Rightarrow> error option \<times> service" where
  "initializeAdapter writeOk s =
     andThen (sendCommand writeOk (str ''ATZ'') s) (\<lambda>s.
     andThen (None, delay 1000 s) (\<lambda>s.
     andThen (sendCommand writeOk (str ''ATE0'') s) (\<lambda>s.
     andThen (sendCommand writeOk (str ''ATL0'') s) (\<lambda>s.
     andThen (sendCommand writeOk (str ''ATS0'') s) (\<lambda>s.
     andThen (sendCommand writeOk (str ''ATH0'') s) (\<lambda>s.
     sendCommand writeOk (str ''ATSP0'') s))))))"

text \<open>
  \<^verbatim>\<open>startPolling\<close> starts the timer with its three variables at zero and no run of
  its callback waiting; \<^verbatim>\<open>stopPolling\<close> clears it. A run that is still waiting when
  the timer is cleared goes on to assign variables that nothing reads any more, and is
  dropped with them.
\<close>

definition startPolling :: "service \<Rightarrow> service" where
  "startPolling s =
     s\<lparr>pollingInterval :=
         Some \<lparr>priorityIndex = 0, secondaryIndex = 0, cycleCount = 0, waiting = []\<rparr>\<rparr>"

definition stopPolling :: "service \<Rightarrow> service" where
  "stopPolling s = (if pollingInterval s \<noteq> None then s\<lparr>pollingInterval := None\<rparr> else s)"

text \<open>
  \<^verbatim>\<open>disconnect\<close>. \<open>cancelOk\<close> says whether \<^verbatim>\<open>cancelConnection\<close> resolves; when it
  rejects, the rest of the method is not run.
\<close>

definition disconnect :: "(nat \<Rightarrow> nat list) \<Rightarrow> bool \<Rightarrow> service \<Rightarrow> error option \<times> service" where
  "disconnect react cancelOk s =
     andThen
       (let s1 = stopPolling s
        in if device s1 \<noteq> None
           then (if cancelOk then (None, s1\<lparr>device := None\<rparr>) else (Some CancelRejected, s1))
           else (None, s1))
       (\<lambda>s2. case alloc INITIAL_OBD_DATA (s2\<lparr>writeCharacteristic := None\<rparr>) of
               (a, s3) \<Rightarrow> (None, notifyListeners react (s3\<lparr>data := a\<rparr>)))"

subsection \<open>The polling timer\<close>

text \<open>
  The two arrays of \<^verbatim>\<open>startPolling\<close>, with the request codes of \<^verbatim>\<open>OBD_PIDS\<close>
  written out.
\<close>

definition priorityPids :: "jsstring list" where
  "priorityPids = map str [''010C'', ''010D'', ''010B'', ''0111'']"

definition secondaryPids :: "jsstring list" where
  "secondaryPids =
     map str
       [''0105'', ''015C'', ''015E'', ''012F'', ''010F'', ''0146'', ''0162'', ''012C'', ''0142'']"

text \<open>
  An array read \<^verbatim>\<open>xs[i]\<close>, which is \<^verbatim>\<open>undefined\<close> out of range, and the text that
  \<^verbatim>\<open>command + '\r'\<close> makes of the value read.
\<close>

definition arrayGet :: "'a list \<Rightarrow> nat \<Rightarrow> 'a option" where
  "arrayGet xs i = (if i < length xs then Some (xs ! i) else None)"

definition commandText :: "jsstring option \<Rightarrow> jsstring" where
  "commandText q = (case q of Some c \<Rightarrow> c | None \<Rightarrow> str ''undefined'')"

text \<open>
  The timer fires and its callback runs up to the \<^verbatim>\<open>await\<close>, for the arrays \<open>pri\<close> and
  \<open>sec\<close>; the source runs it with \<open>priorityPids\<close> and \<open>secondaryPids\<close>. A timer that
  is not running never fires. The callback reads the counter and the index of the
  branch it takes, and calls \<^verbatim>\<open>sendCommand\<close> with the entry read. Without a write
  characteristic \<^verbatim>\<open>sendCommand\<close> returns at once and the run goes on before anything
  else happens. A write that the transport accepts leaves the run waiting for it to
  resolve. A write that the transport rejects ends the run with a rejection that
  nothing handles: the variables stay as they were, and the timer goes on firing.
\<close>

definition chooseBranch :: "'a list \<Rightarrow> poller \<Rightarrow> branch" where
  "chooseBranch sec p =
     (if cycleCount p mod 5 = 4 \<and> length sec > 0 then Secondary else Priority)"

text \<open>
  The rest of a run, after its \<^verbatim>\<open>await\<close>: the index of its branch moves on from the
  value it has by then, and the counter is incremented. With an empty priority array
  the index becomes NaN in the source, so that every later read is \<^verbatim>\<open>undefined\<close>;
  here the index stays a number and every read of the empty list is \<open>None\<close> all the
  same.
\<close>

definition resumeRun :: "'a list \<Rightarrow> 'a list \<Rightarrow> branch \<Rightarrow> poller \<Rightarrow> poller" where
  "resumeRun pri sec b p =
     (case b of
        Secondary \<Rightarrow>
          p\<lparr>secondaryIndex := (secondaryIndex p + 1) mod length sec,
            cycleCount := cycleCount p + 1\<rparr>
      | Priority \<Rightarrow>
          p\<lparr>priorityIndex := (priorityIndex p + 1) mod length pri,
            cycleCount := cycleCount p + 1\<rparr>)"

definition timerFires ::
  "(jsstring \<Rightarrow> bool) \<Rightarrow> jsstring list \<Rightarrow> jsstring list \<Rightarrow> service \<Rightarrow> service" where
  "timerFires writeOk pri sec s =
     (case pollingInterval s of
        None \<Rightarrow> s
      | Some p \<Rightarrow>
          if isConnected (heap s (data s)) then
            (let b = chooseBranch sec p;
                 q = (case b of
                        Secondary \<Rightarrow> arrayGet sec (secondaryIndex p)
                      | Priority \<Rightarrow> arrayGet pri (priorityIndex p))
             in case writeCharacteristic s of
                  None \<Rightarrow> s\<lparr>pollingInterval := Some (resumeRun pri sec b p)\<rparr>
                | Some c \<Rightarrow>
                    (case sendCommand writeOk (commandText q) s of
                       (None, s1) \<Rightarrow>
                         s1\<lparr>pollingInterval := Some (p\<lparr>waiting := waiting p @ [b]\<rparr>)\<rparr>
                     | (Some e, s1) \<Rightarrow> s1))
          else s)"

text \<open>
  The write of the \<open>k\<close>-th waiting run resolves, and the run goes on to its end.
\<close>

definition writeResolves :: "'a list \<Rightarrow> 'a list \<Rightarrow> nat \<Rightarrow> service \<Rightarrow> service" where
  "writeResolves pri sec k s =
     (case pollingInterval s of
        None \<Rightarrow> s
      | Some p \<Rightarrow>
          if k < length (waiting p)
          then s\<lparr>pollingInterval :=
                   Some (resumeRun pri sec (waiting p ! k)
                           (p\<lparr>waiting := take k (waiting p) @ drop (Suc k) (waiting p)\<rparr>))\<rparr>
          else s)"

text \<open>
  The moments of the timer, and the service after a sequence of them. \<open>inTurn n\<close> is
  the sequence in which the timer fires \<open>n\<close> times and every write has resolved
  before the timer fires again.
\<close>

datatype timing = TimerFires | WriteResolves nat

fun pollStep ::
  "(jsstring \<Rightarrow> bool) \<Rightarrow> jsstring list \<Rightarrow> jsstring list \<Rightarrow> timing \<Rightarrow> service \<Rightarrow> service" where
  "pollStep writeOk pri sec TimerFires s = timerFires writeOk pri sec s"
| "pollStep writeOk pri sec (WriteResolves k) s = writeResolves pri sec k s"

definition runPoll ::
  "(jsstring \<Rightarrow> bool) \<Rightarrow> jsstring list \<Rightarrow> jsstring list \<Rightarrow> timing list \<Rightarrow> service \<Rightarrow> service"
  where
  "runPoll writeOk pri sec ts s = foldl (\<lambda>st t. pollStep writeOk pri sec t st) s ts"

definition inTurn :: "nat \<Rightarrow> timing list" where
  "inTurn n = concat (replicate n [TimerFires, WriteResolves 0])"

subsection \<open>The decoder's table, and bytes as the adapter prints them\<close>

text \<open>The numeric fields of the snapshot, by name.\<close>

datatype field =
    Rpm | Speed | CoolantTemp | EngineLoad | ThrottlePosition
  | FuelLevel | FuelRate | FuelPressure
  | IntakeAirTemp | BoostPressure | MafRate | BarometricPressure
  | OilTemp | AmbientTemp
  | ActualTorque | ReferenceTorque
  | AcceleratorPosition
  | EgrCommanded | EgrError
  | BatteryVoltage | RunTime

fun fieldValue :: "field \<Rightarrow> OBDData \<Rightarrow> jsnum" where
  "fieldValue Rpm d = rpm d"
| "fieldValue Speed d = speed d"
| "fieldValue CoolantTemp d = coolantTemp d"
| "fieldValue EngineLoad d = engineLoad d"
| "fieldValue ThrottlePosition d = throttlePosition d"
| "fieldValue FuelLevel d = fuelLevel d"
| "fieldValue FuelRate d = fuelRate d"
| "fieldValue FuelPressure d = fuelPressure d"
| "fieldValue IntakeAirTemp d = intakeAirTemp d"
| "fieldValue BoostPressure d = boostPressure d"
| "fieldValue MafRate d = mafRate d"
| "fieldValue BarometricPressure d = barometricPressure d"
| "fieldValue OilTemp d = oilTemp d"
| "fieldValue AmbientTemp d = ambientTemp d"
| "fieldValue ActualTorque d = actualTorque d"
| "fieldValue ReferenceTorque d = referenceTorque d"
| "fieldValue AcceleratorPosition d = acceleratorPosition d"
| "fieldValue EgrCommanded d = egrCommanded d"
| "fieldValue EgrError d = egrError d"
| "fieldValue BatteryVoltage d = batteryVoltage d"
| "fieldValue RunTime d = runTime d"

text \<open>
  The case labels of the switch in the order of the source, each with the least length
  of \<^verbatim>\<open>dataBytes\<close> that its guard asks for and the field that it assigns.
\<close>

definition pidTable :: "(jsstring \<times> nat \<times> field) list" where
  "pidTable =
     [(str ''0C'', 4, Rpm), (str ''0D'', 2, Speed), (str ''05'', 2, CoolantTemp),
      (str ''04'', 2, EngineLoad), (str ''11'', 2, ThrottlePosition),
      (str ''2F'', 2, FuelLevel), (str ''5E'', 4, FuelRate), (str ''0A'', 2, FuelPressure),
      (str ''0B'', 2, BoostPressure), (str ''10'', 4, MafRate),
      (str ''0F'', 2, IntakeAirTemp), (str ''33'', 2, BarometricPressure),
      (str ''5C'', 2, OilTemp), (str ''46'', 2, AmbientTemp), (str ''62'', 2, ActualTorque),
      (str ''63'', 4, ReferenceTorque), (str ''49'', 2, AcceleratorPosition),
      (str ''2C'', 2, EgrCommanded), (str ''2D'', 2, EgrError),
      (str ''42'', 4, BatteryVoltage), (str ''1F'', 4, RunTime)]"

text \<open>
  A response passes the checks that the decoder makes before it assigns the field
  \<open>f\<close>: cleaned, it starts with 41, its PID is the case that assigns \<open>f\<close>, and its
  payload is as long as that case's guard asks. The decoder makes no other check:
  whether the payload is hexadecimal is not looked at.
\<close>

definition decodesField ::
  "(jsstring \<Rightarrow> jsstring) \<Rightarrow> jsstring \<Rightarrow> field \<Rightarrow> bool" where
  "decodesField upper response f \<longleftrightarrow>
     startsWith (clean upper response) (str ''41'') \<and>
     (case map_of pidTable (pidOf upper response) of
        Some (n, g) \<Rightarrow> g = f \<and> n \<le> length (dataBytesOf upper response)
      | None \<Rightarrow> False)"

text \<open>
  A byte as the adapter prints it: two hexadecimal digits in upper case.
\<close>

definition hexChar :: "nat \<Rightarrow> nat" where
  "hexChar k = str ''0123456789ABCDEF'' ! k"

definition hexByte :: "nat \<Rightarrow> jsstring" where
  "hexByte n = [hexChar (n div 16), hexChar (n mod 16)]"

subsection \<open>An engine, an environment and two states for the examples\<close>

text \<open>
  The capitals that \<^verbatim>\<open>toUpperCase\<close> gives for the code units from 128 to 255, each
  code unit of the run on its own: the sharp s becomes \<^verbatim>\<open>SS\<close>, the micro sign and the
  y with diaeresis get their capitals outside Latin-1, the other small letters are 32
  above their capitals, and the division sign is no letter. A code unit above 255 is
  left as it is; of those, the examples use only the replacement character U+FFFD,
  which \<^verbatim>\<open>toUpperCase\<close> leaves as it is.
\<close>

definition latin1Upper :: "jsstring \<Rightarrow> jsstring" where
  "latin1Upper r =
     concat (map (\<lambda>c. if c = 0xDF then str ''SS''
                       else if c = 0xB5 then [0x39C]
                       else if c = 0xFF then [0x178]
                       else if 0xE0 \<le> c \<and> c \<le> 0xFE \<and> c \<noteq> 0xF7 then [c - 0x20]
                       else [c]) r)"

text \<open>
  A decoder of UTF-8 to UTF-16 with the replacement character U+FFFD for every byte
  that does not start a well-formed sequence, as \<^verbatim>\<open>toString('utf-8')\<close> of the
  \<^verbatim>\<open>buffer\<close> package decodes: the first byte gives the length of the sequence, the
  bytes that follow must be continuation bytes, and the code point must need that
  length and be no surrogate.
\<close>

definition isCont :: "nat \<Rightarrow> bool" where
  "isCont b \<longleftrightarrow> 0x80 \<le> b \<and> b < 0xC0"

fun utf8Slice :: "nat list \<Rightarrow> jsstring" where
  "utf8Slice [] = []"
| "utf8Slice (b # bs) =
     (if b < 0x80 then b # utf8Slice bs
      else if b > 0xEF then
        (case bs of
           b2 # b3 # b4 # rest \<Rightarrow>
             (let cp = (b mod 16) * 262144 + (b2 mod 64) * 4096 + (b3 mod 64) * 64 + b4 mod 64
              in if isCont b2 \<and> isCont b3 \<and> isCont b4 \<and> cp > 0xFFFF \<and> cp < 0x110000
                 then (0xD800 + ((cp - 0x10000) div 1024) mod 1024) #
                      (0xDC00 + (cp - 0x10000) mod 1024) # utf8Slice rest
                 else 0xFFFD # utf8Slice bs)
         | _ \<Rightarrow> 0xFFFD # utf8Slice bs)
      else if b > 0xDF then
        (case bs of
           b2 # b3 # rest \<Rightarrow>
             (let cp = (b mod 16) * 4096 + (b2 mod 64) * 64 + b3 mod 64
              in if isCont b2 \<and> isCont b3 \<and> cp > 0x7FF \<and> (cp < 0xD800 \<or> cp > 0xDFFF)
                 then cp # utf8Slice rest
                 else 0xFFFD # utf8Slice bs)
         | _ \<Rightarrow> 0xFFFD # utf8Slice bs)
      else if b > 0xBF then
        (case bs of
           b2 # rest \<Rightarrow>
             (let cp = (b mod 32) * 64 + b2 mod 64
              in if isCont b2 \<and> cp > 0x7F then cp # utf8Slice rest
                 else 0xFFFD # utf8Slice bs)
         | _ \<Rightarrow> 0xFFFD # utf8Slice bs)
      else 0xFFFD # utf8Slice bs)"

definition utf8Text :: "string \<Rightarrow> jsstring" where
  "utf8Text bytes = utf8Slice (map of_char bytes)"

text \<open>
  Listeners that call no unsubscribe handle, and a transport that accepts every write.
\<close>

definition quiet :: "nat \<Rightarrow> nat list" where
  "quiet l = []"

definition accepting :: "jsstring \<Rightarrow> bool" where
  "accepting w = True"

text \<open>
  Listeners of which the one numbered 2 calls its own unsubscribe handle when it is
  called, and a transport that rejects the write of \<^verbatim>\<open>ATL0\<close>.
\<close>

definition leaver :: "nat \<Rightarrow> nat list" where
  "leaver l = (if l = 2 then [2] else [])"

definition refusing :: "jsstring \<Rightarrow> bool" where
  "refusing w \<longleftrightarrow> w \<noteq> str ''ATL0'' @ CR"

text \<open>
  The timer of 150 milliseconds with every write resolving 400 milliseconds after it
  was made, up to the tenth firing: the timer fires at 0, 150 and 300, the first write
  resolves at 400, the timer fires at 450, the second write resolves at 550, and so on.
\<close>

definition slowWrites :: "timing list" where
  "slowWrites =
     [TimerFires, TimerFires, TimerFires] @
     concat (replicate 7 [WriteResolves 0, TimerFires])"

text \<open>
  The service as its field initialisers leave it (\<^verbatim>\<open>data = { ...INITIAL_OBD_DATA }\<close>,
  no listener, no timer, an empty buffer), and a service that is connected to a device
  and polling, as \<^verbatim>\<open>connectToDevice\<close> leaves it.
\<close>

definition newService :: service where
  "newService =
     \<lparr> device = None, writeCharacteristic = None, data = 0, listeners = [],
       pollingInterval = None, responseBuffer = [],
       heap = (\<lambda>a. INITIAL_OBD_DATA), fresh = 1, trace = [] \<rparr>"

text \<open>
  The service in \<^verbatim>\<open>connectToDevice\<close> when \<^verbatim>\<open>initializeAdapter\<close> is called: the device
  is connected, a write characteristic was found, nothing was received.
\<close>

definition connectedService :: service where
  "connectedService =
     newService\<lparr> device := Some (str ''OBDII''), writeCharacteristic := Some (str ''fff2'') \<rparr>"

definition readyService :: service where
  "readyService =
     startPolling
       (newService\<lparr> device := Some (str ''OBDII''), writeCharacteristic := Some (str ''fff2''),
          heap := (heap newService)
            (0 := INITIAL_OBD_DATA\<lparr>isConnected := True, deviceName := str ''OBDII''\<rparr>) \<rparr>)"

section \<open>Properties\<close>

subsection \<open>Awaiting\<close>

lemma andThen_None [simp]: "andThen (None, s) f = f s"
  by (simp add: andThen_def)

lemma andThen_Some [simp]: "andThen (Some e, s) f = (Some e, s)"
  by (simp add: andThen_def)

subsection \<open>Literals\<close>

lemma cu_eq_iff [simp]: "cu a = cu b \<longleftrightarrow> a = b"
proof
  assume "cu a = cu b"
  then have "char_of (of_char a :: nat) = char_of (of_char b :: nat)"
    by (simp add: cu_def)
  then show "a = b" by simp
qed simp

lemma str_eq_iff [simp]: "str a = str b \<longleftrightarrow> a = b"
proof -
  have "inj cu" by (rule injI) simp
  then show ?thesis by (simp add: str_def inj_map_eq_map)
qed

lemma str_Nil [simp]: "str [] = []"
  by (simp add: str_def)

lemma str_is_Nil [simp]: "str s = [] \<longleftrightarrow> s = []"
  by (simp add: str_def)

lemma length_str [simp]: "length (str s) = length s"
  by (simp add: str_def)

lemma str_append: "str (a @ b) = str a @ str b"
  by (simp add: str_def)

lemma str_Cons: "str (c # cs) = cu c # str cs"
  by (simp add: str_def)

lemma take_str [simp]: "take n (str s) = str (take n s)"
  by (simp add: str_def take_map)

lemma drop_str [simp]: "drop n (str s) = str (drop n s)"
  by (simp add: str_def drop_map)

text \<open>On text of ASCII, \<^verbatim>\<open>toUpperCase\<close> asks nothing of \<open>upper\<close>.\<close>

lemma toUpperCase_ascii:
  assumes "\<forall>c \<in> set s. c < 0x80"
  shows "toUpperCase upper s = map upperAscii s"
  using assms by (induction s) simp_all

lemma toUpperCase_ascii_Cons:
  assumes "c < 0x80"
  shows "toUpperCase upper (c # cs) = upperAscii c # toUpperCase upper cs"
  using assms by simp

subsection \<open>Calling the listeners\<close>

lemma unsubscribe_fold:
  "foldl (\<lambda>st h. unsubscribe h st) s hs =
     s\<lparr>listeners := filter (\<lambda>l. l \<notin> set hs) (listeners s)\<rparr>"
proof (induction hs arbitrary: s)
  case Nil
  show ?case by simp
next
  case (Cons h hs)
  have "filter (\<lambda>l. l \<notin> set hs) (filter (\<lambda>l. l \<noteq> h) (listeners s)) =
        filter (\<lambda>l. l \<notin> set (h # hs)) (listeners s)"
    by (induction "listeners s") auto
  then show ?case
    by (simp add: Cons) (simp add: unsubscribe_def)
qed

lemma callListener_eq:
  "callListener react l a s =
     s\<lparr>trace := trace s @ [Delivered l a],
       listeners := filter (\<lambda>x. x \<notin> set (react l)) (listeners s)\<rparr>"
  by (simp add: callListener_def unsubscribe_fold)

lemma deliverAll_Cons:
  "deliverAll react (l # ls) s =
     deliverAll react ls
       (s\<lparr>heap := (heap s)(fresh s := heap s (data s)), fresh := Suc (fresh s),
          trace := trace s @ [Delivered l (fresh s)],
          listeners := filter (\<lambda>x. x \<notin> set (react l)) (listeners s)\<rparr>)"
  by (simp add: deliverAll_def alloc_def callListener_eq)

text \<open>
  What a walk over \<open>ls\<close> leaves: one new object per listener, each holding the
  snapshot as it was at the start, one call per listener in the order of the list, and
  the listeners without those that were unsubscribed on the way.
\<close>

lemma deliverAll_closed:
  "data (deliverAll react ls s) = data s \<and>
   device (deliverAll react ls s) = device s \<and>
   writeCharacteristic (deliverAll react ls s) = writeCharacteristic s \<and>
   pollingInterval (deliverAll react ls s) = pollingInterval s \<and>
   responseBuffer (deliverAll react ls s) = responseBuffer s \<and>
   fresh (deliverAll react ls s) = fresh s + length ls \<and>
   trace (deliverAll react ls s) =
     trace s @ map (\<lambda>(a, l). Delivered l a) (enumerate (fresh s) ls) \<and>
   (\<forall>a. heap (deliverAll react ls s) a =
     (if fresh s \<le> a \<and> a < fresh s + length ls then heap s (data s) else heap s a)) \<and>
   listeners (deliverAll react ls s) =
     filter (\<lambda>x. \<forall>l \<in> set ls. x \<notin> set (react l)) (listeners s)"
proof (induction ls arbitrary: s)
  case Nil
  show ?case by (auto simp add: deliverAll_def)
next
  case (Cons l ls)
  let ?s1 = "s\<lparr>heap := (heap s)(fresh s := heap s (data s)), fresh := Suc (fresh s),
          trace := trace s @ [Delivered l (fresh s)],
          listeners := filter (\<lambda>x. x \<notin> set (react l)) (listeners s)\<rparr>"
  note ih = Cons [of ?s1]
  have fl: "filter (\<lambda>x. \<forall>l \<in> set ls. x \<notin> set (react l))
              (filter (\<lambda>x. x \<notin> set (react l)) (listeners s)) =
            filter (\<lambda>x. \<forall>l \<in> set (l # ls). x \<notin> set (react l)) (listeners s)"
    by (induction "listeners s") auto
  show ?case
    unfolding deliverAll_Cons
    using ih fl by auto
qed

lemma notify_data [simp]: "data (notifyListeners react s) = data s"
  and notify_device [simp]: "device (notifyListeners react s) = device s"
  and notify_writeCharacteristic [simp]:
    "writeCharacteristic (notifyListeners react s) = writeCharacteristic s"
  and notify_pollingInterval [simp]:
    "pollingInterval (notifyListeners react s) = pollingInterval s"
  and notify_responseBuffer [simp]:
    "responseBuffer (notifyListeners react s) = responseBuffer s"
  and notify_fresh: "fresh (notifyListeners react s) = fresh s + length (listeners s)"
  and notify_trace:
    "trace (notifyListeners react s) =
       trace s @ map (\<lambda>(a, l). Delivered l a) (enumerate (fresh s) (listeners s))"
  and notify_heap:
    "heap (notifyListeners react s) a =
       (if fresh s \<le> a \<and> a < fresh s + length (listeners s)
        then heap s (data s) else heap s a)"
  and notify_listeners:
    "listeners (notifyListeners react s) =
       filter (\<lambda>x. \<forall>l \<in> set (listeners s). x \<notin> set (react l)) (listeners s)"
  using deliverAll_closed [of react "listeners s" s]
  by (simp_all add: notifyListeners_def)

lemma notify_snapshot [simp]: "snapshot (notifyListeners react s) = snapshot s"
  by (simp add: snapshot_def notify_heap)

text \<open>
  Every listener of the list at the start is called, with a new object that holds the
  snapshot.
\<close>

lemma notify_reaches:
  assumes "l \<in> set (listeners s)"
  shows "\<exists>a. Delivered l a \<in> set (drop (length (trace s)) (trace (notifyListeners react s))) \<and>
             fresh s \<le> a \<and> heap (notifyListeners react s) a = snapshot s"
proof -
  from assms obtain i where i: "i < length (listeners s)" "listeners s ! i = l"
    by (auto simp add: in_set_conv_nth)
  then have "(fresh s + i, l) \<in> set (enumerate (fresh s) (listeners s))"
    by (simp add: in_set_enumerate_eq)
  then have "Delivered l (fresh s + i) \<in>
      set (map (\<lambda>(a, l). Delivered l a) (enumerate (fresh s) (listeners s)))"
    by force
  moreover have "heap (notifyListeners react s) (fresh s + i) = snapshot s"
    using i by (simp add: notify_heap snapshot_def)
  ultimately show ?thesis
    by (intro exI [of _ "fresh s + i"]) (simp add: notify_trace)
qed

subsection \<open>Reading a printed byte\<close>

lemma hexChar_facts:
  "\<forall>k \<in> set [0 ..< 16].
     hexDigit (hexChar k) = Some k \<and> \<not> isSpace (hexChar k) \<and>
     hexChar k \<noteq> cu (CHR ''-'') \<and> hexChar k \<noteq> cu (CHR ''+'') \<and>
     hexChar k \<noteq> cu (CHR ''x'') \<and> hexChar k \<noteq> cu (CHR ''X'')"
  by code_simp

lemma hexChar_digit:
  assumes "k < 16"
  shows "hexDigit (hexChar k) = Some k" and "\<not> isSpace (hexChar k)"
    and "hexChar k \<noteq> cu (CHR ''-'')" and "hexChar k \<noteq> cu (CHR ''+'')"
    and "hexChar k \<noteq> cu (CHR ''x'')" and "hexChar k \<noteq> cu (CHR ''X'')"
  using assms hexChar_facts by simp_all

lemma hexValue_hexByte:
  assumes "n < 256"
  shows "hexValue (hexByte n) = n"
proof -
  from assms have "n div 16 < 16" and "n mod 16 < 16" by simp_all
  then show ?thesis
    by (simp add: hexValue_def hexByte_def hexChar_digit)
qed

lemma length_hexByte [simp]: "length (hexByte n) = 2"
  by (simp add: hexByte_def)

text \<open>\<^verbatim>\<open>parseInt\<close> gives back the byte that was printed.\<close>

lemma parseInt16_hexByte:
  assumes "n < 256"
  shows "parseInt16 (hexByte n) = Num (of_nat n)"
proof -
  from assms have d: "n div 16 < 16" and m: "n mod 16 < 16" by simp_all
  have z: "takeWhile (\<lambda>c. hexDigit c \<noteq> None) (hexByte n) = hexByte n"
    by (simp add: hexByte_def hexChar_digit [OF d] hexChar_digit [OF m])
  have v: "hexValue (hexByte n) = n"
    by (rule hexValue_hexByte [OF assms])
  have ne: "hexByte n \<noteq> []" by (simp add: hexByte_def)
  have s1: "dropWhile isSpace (hexByte n) = hexByte n"
    by (simp add: hexByte_def hexChar_digit [OF d])
  have s2: "take 1 (hexByte n) \<noteq> str ''-''" "take 1 (hexByte n) \<noteq> str ''+''"
    by (simp_all add: hexByte_def str_Cons hexChar_digit [OF d])
  have s3: "take 2 (hexByte n) \<noteq> str ''0x''" "take 2 (hexByte n) \<noteq> str ''0X''"
    by (simp_all add: hexByte_def str_Cons hexChar_digit [OF m])
  show ?thesis
    by (simp only: parseInt16_def Let_def s1 s2 s3 z v ne if_False simp_thms)
qed

lemma parseTwoBytes_hexByte:
  assumes "a < 256" and "b < 256"
  shows "parseTwoBytes (hexByte a @ hexByte b @ rest) = Num (256 * of_nat a + of_nat b)"
  using parseInt16_hexByte [OF assms(1)] parseInt16_hexByte [OF assms(2)]
  by (simp add: parseTwoBytes_def)

subsection \<open>The decode rules\<close>

lemma decode_two_bytes:
  assumes "a < 256" and "b < 256"
  shows "rpm (decodePid (str ''0C'') (hexByte a @ hexByte b @ rest) d) =
           Math_round (Num ((256 * of_nat a + of_nat b) / 4))"
    and "fuelRate (decodePid (str ''5E'') (hexByte a @ hexByte b @ rest) d) =
           jdiv (Math_round (Num ((256 * of_nat a + of_nat b) / 20 * 10))) (Num 10)"
    and "mafRate (decodePid (str ''10'') (hexByte a @ hexByte b @ rest) d) =
           jdiv (Math_round (Num ((256 * of_nat a + of_nat b) / 100 * 10))) (Num 10)"
    and "batteryVoltage (decodePid (str ''42'') (hexByte a @ hexByte b @ rest) d) =
           jdiv (Math_round (Num ((256 * of_nat a + of_nat b) / 100))) (Num 10)"
    and "referenceTorque (decodePid (str ''63'') (hexByte a @ hexByte b @ rest) d) =
           Num (256 * of_nat a + of_nat b)"
    and "runTime (decodePid (str ''1F'') (hexByte a @ hexByte b @ rest) d) =
           Num (256 * of_nat a + of_nat b)"
  by (simp_all add: decodePid_def parseTwoBytes_hexByte [OF assms])

lemma decode_percent:
  assumes "a < 256"
  shows "engineLoad (decodePid (str ''04'') (hexByte a @ rest) d) =
           Math_round (Num (of_nat a * 100 / 255))"
    and "throttlePosition (decodePid (str ''11'') (hexByte a @ rest) d) =
           Math_round (Num (of_nat a * 100 / 255))"
    and "fuelLevel (decodePid (str ''2F'') (hexByte a @ rest) d) =
           Math_round (Num (of_nat a * 100 / 255))"
    and "acceleratorPosition (decodePid (str ''49'') (hexByte a @ rest) d) =
           Math_round (Num (of_nat a * 100 / 255))"
    and "egrCommanded (decodePid (str ''2C'') (hexByte a @ rest) d) =
           Math_round (Num (of_nat a * 100 / 255))"
  by (simp_all add: decodePid_def parsePercent_def parseInt16_hexByte [OF assms])

lemma decode_temp:
  assumes "a < 256"
  shows "coolantTemp (decodePid (str ''05'') (hexByte a @ rest) d) = Num (of_nat a - 40)"
    and "intakeAirTemp (decodePid (str ''0F'') (hexByte a @ rest) d) = Num (of_nat a - 40)"
    and "oilTemp (decodePid (str ''5C'') (hexByte a @ rest) d) = Num (of_nat a - 40)"
    and "ambientTemp (decodePid (str ''46'') (hexByte a @ rest) d) = Num (of_nat a - 40)"
  by (simp_all add: decodePid_def parseTemp_def parseInt16_hexByte [OF assms])

lemma decode_other:
  assumes "a < 256"
  shows "egrError (decodePid (str ''2D'') (hexByte a @ rest) d) =
           Math_round (Num ((of_nat a - 128) * 100 / 128))"
    and "speed (decodePid (str ''0D'') (hexByte a @ rest) d) = Num (of_nat a)"
    and "boostPressure (decodePid (str ''0B'') (hexByte a @ rest) d) = Num (of_nat a)"
    and "barometricPressure (decodePid (str ''33'') (hexByte a @ rest) d) = Num (of_nat a)"
    and "fuelPressure (decodePid (str ''0A'') (hexByte a @ rest) d) = Num (of_nat a * 3)"
    and "actualTorque (decodePid (str ''62'') (hexByte a @ rest) d) = Num (of_nat a - 125)"
  by (simp_all add: decodePid_def parseInt16_hexByte [OF assms])

lemma decode_unknown:
  assumes "pid \<notin> fst ` set pidTable"
  shows "decodePid pid dataBytes d = d"
  using assms by (simp add: decodePid_def pidTable_def)

text \<open>
  C5, as the code has it. For a payload that starts with the printed bytes \<open>a\<close> (and
  \<open>b\<close>), the twenty-one cases of the switch compute:
  \<^item> the percentage \<open>round (a * 100 / 255)\<close> for the PIDs 04, 11, 2F, 49 and 2C;
  \<^item> the temperature \<open>a - 40\<close> for 05, 0F, 5C and 46;
  \<^item> from the two bytes \<open>v = 256 * a + b\<close>: \<open>round (v / 4)\<close> for the RPM (0C),
    \<open>round (v / 20 * 10) / 10\<close> for the fuel rate (5E), \<open>round (v / 100 * 10) / 10\<close> for
    the air flow (10), \<open>round (v / 100) / 10\<close> for the voltage (42), and \<open>v\<close> itself
    for the reference torque (63) and the run time (1F);
  \<^item> the signed percentage \<open>round ((a - 128) * 100 / 128)\<close> for the EGR error (2D);
  \<^item> and outside those four shapes: the byte \<open>a\<close> itself for the speed (0D), the
    manifold pressure (0B) and the barometric pressure (33), \<open>a * 3\<close> for the fuel
    pressure (0A), and \<open>a - 125\<close> for the torque (62).
  A PID that is no case of the switch changes nothing.
\<close>

theorem decodePid_formulas:
  assumes "a < 256" and "b < 256"
  shows
   "engineLoad (decodePid (str ''04'') (hexByte a @ rest) d) =
      Math_round (Num (of_nat a * 100 / 255)) \<and>
    throttlePosition (decodePid (str ''11'') (hexByte a @ rest) d) =
      Math_round (Num (of_nat a * 100 / 255)) \<and>
    fuelLevel (decodePid (str ''2F'') (hexByte a @ rest) d) =
      Math_round (Num (of_nat a * 100 / 255)) \<and>
    acceleratorPosition (decodePid (str ''49'') (hexByte a @ rest) d) =
      Math_round (Num (of_nat a * 100 / 255)) \<and>
    egrCommanded (decodePid (str ''2C'') (hexByte a @ rest) d) =
      Math_round (Num (of_nat a * 100 / 255)) \<and>
    coolantTemp (decodePid (str ''05'') (hexByte a @ rest) d) = Num (of_nat a - 40) \<and>
    intakeAirTemp (decodePid (str ''0F'') (hexByte a @ rest) d) = Num (of_nat a - 40) \<and>
    oilTemp (decodePid (str ''5C'') (hexByte a @ rest) d) = Num (of_nat a - 40) \<and>
    ambientTemp (decodePid (str ''46'') (hexByte a @ rest) d) = Num (of_nat a - 40) \<and>
    rpm (decodePid (str ''0C'') (hexByte a @ hexByte b @ rest) d) =
      Math_round (Num ((256 * of_nat a + of_nat b) / 4)) \<and>
    fuelRate (decodePid (str ''5E'') (hexByte a @ hexByte b @ rest) d) =
      jdiv (Math_round (Num ((256 * of_nat a + of_nat b) / 20 * 10))) (Num 10) \<and>
    mafRate (decodePid (str ''10'') (hexByte a @ hexByte b @ rest) d) =
      jdiv (Math_round (Num ((256 * of_nat a + of_nat b) / 100 * 10))) (Num 10) \<and>
    batteryVoltage (decodePid (str ''42'') (hexByte a @ hexByte b @ rest) d) =
      jdiv (Math_round (Num ((256 * of_nat a + of_nat b) / 100))) (Num 10) \<and>
    referenceTorque (decodePid (str ''63'') (hexByte a @ hexByte b @ rest) d) =
      Num (256 * of_nat a + of_nat b) \<and>
    runTime (decodePid (str ''1F'') (hexByte a @ hexByte b @ rest) d) =
      Num (256 * of_nat a + of_nat b) \<and>
    egrError (decodePid (str ''2D'') (hexByte a @ rest) d) =
      Math_round (Num ((of_nat a - 128) * 100 / 128)) \<and>
    speed (decodePid (str ''0D'') (hexByte a @ rest) d) = Num (of_nat a) \<and>
    boostPressure (decodePid (str ''0B'') (hexByte a @ rest) d) = Num (of_nat a) \<and>
    barometricPressure (decodePid (str ''33'') (hexByte a @ rest) d) = Num (of_nat a) \<and>
    fuelPressure (decodePid (str ''0A'') (hexByte a @ rest) d) = Num (of_nat a * 3) \<and>
    actualTorque (decodePid (str ''62'') (hexByte a @ rest) d) = Num (of_nat a - 125) \<and>
    (pid \<notin> fst ` set pidTable \<longrightarrow> decodePid pid dataBytes d = d)"
  using decode_percent [OF assms(1), of rest d] decode_temp [OF assms(1), of rest d]
    decode_two_bytes [OF assms, of rest d] decode_other [OF assms(1), of rest d]
    decode_unknown [of pid dataBytes d]
  by (intro conjI impI) assumption+

theorem decodePid_formulas_witness:
  "(26 :: nat) < 256 \<and> (248 :: nat) < 256 \<and>
   hexByte 26 = str ''1A'' \<and> hexByte 26 @ hexByte 248 = str ''1AF8'' \<and>
   rpm (decodePid (str ''0C'') (str ''1AF8'') INITIAL_OBD_DATA) = Num 1726 \<and>
   batteryVoltage (decodePid (str ''42'') (str ''1AF8'') INITIAL_OBD_DATA) = Num (69 / 10) \<and>
   speed (decodePid (str ''0D'') (str ''1A'') INITIAL_OBD_DATA) = Num 26 \<and>
   str ''ZZ'' \<notin> fst ` set pidTable \<and>
   decodePid (str ''ZZ'') (str ''1AF8'') INITIAL_OBD_DATA = INITIAL_OBD_DATA"
proof -
  have h: "(26 :: nat) < 256" "(248 :: nat) < 256" by simp_all
  have e: "hexByte 26 @ [] = str ''1A''" "hexByte 26 @ hexByte 248 @ [] = str ''1AF8''"
    by code_simp+
  have u: "str ''ZZ'' \<notin> fst ` set pidTable" by (simp add: pidTable_def)
  have r: "Math_round (Num ((256 * of_nat 26 + of_nat 248) / 4)) = Num 1726"
    "jdiv (Math_round (Num ((256 * of_nat 26 + of_nat 248) / 100))) (Num 10) = Num (69 / 10)"
    "Num (of_nat 26) = Num 26"
    by code_simp+
  note t = decodePid_formulas [OF h, of "[]" INITIAL_OBD_DATA "str ''ZZ''" "str ''1AF8''"]
  from t have "rpm (decodePid (str ''0C'') (hexByte 26 @ hexByte 248 @ []) INITIAL_OBD_DATA) =
      Math_round (Num ((256 * of_nat 26 + of_nat 248) / 4))"
    by (elim conjE)
  moreover from t
  have "batteryVoltage (decodePid (str ''42'') (hexByte 26 @ hexByte 248 @ []) INITIAL_OBD_DATA) =
      jdiv (Math_round (Num ((256 * of_nat 26 + of_nat 248) / 100))) (Num 10)"
    by (elim conjE)
  moreover from t
  have "speed (decodePid (str ''0D'') (hexByte 26 @ []) INITIAL_OBD_DATA) = Num (of_nat 26)"
    by (elim conjE)
  moreover from t u have "decodePid (str ''ZZ'') (str ''1AF8'') INITIAL_OBD_DATA = INITIAL_OBD_DATA"
    by (elim conjE) (erule mp)
  moreover have "hexByte 26 = str ''1A''" "hexByte 26 @ hexByte 248 = str ''1AF8''"
    by code_simp+
  ultimately show ?thesis
    using h u unfolding e r by simp
qed

text \<open>
  Against the claim: the RPM is rounded (the bytes 00 01 give 0, not a quarter), the
  EGR error is rounded (the byte 81 gives 1, not 100 / 128), and the speed is the byte
  itself, which is none of the three single-byte shapes (the byte 80 gives 128; the
  percentage would be 50, the temperature 88, the signed percentage 0).
\<close>

theorem decode_shapes_counterexample:
  "rpm (snapshot (parseOBDResponse latin1Upper quiet (str ''410C0001'') newService)) = Num 0 \<and>
   Num 0 \<noteq> Num ((256 * 0 + 1) / 4) \<and>
   egrError (snapshot (parseOBDResponse latin1Upper quiet (str ''412D81'') newService)) = Num 1 \<and>
   Num 1 \<noteq> Num ((129 - 128) * 100 / 128) \<and>
   speed (snapshot (parseOBDResponse latin1Upper quiet (str ''410D80'') newService)) = Num 128 \<and>
   Num 128 \<noteq> Math_round (Num (128 * 100 / 255)) \<and>
   Num 128 \<noteq> Num (128 - 40) \<and>
   Num 128 \<noteq> Num ((128 - 128) * 100 / 128)"
  by code_simp

subsection \<open>What one call of the decoder changes\<close>

lemma parse_unfold:
  "parseOBDResponse upper react response s =
     (if \<not> startsWith (clean upper response) (str ''41'')
      then s\<lparr>trace := trace s @ [Decode response]\<rparr>
      else notifyListeners react
             (s\<lparr>trace := trace s @ [Decode response],
                heap := (heap s)(data s :=
                  decodePid (pidOf upper response) (dataBytesOf upper response)
                    (heap s (data s)))\<rparr>))"
  by (simp add: parseOBDResponse_def Let_def)

lemma parse_discarded:
  assumes "\<not> startsWith (clean upper response) (str ''41'')"
  shows "parseOBDResponse upper react response s = s\<lparr>trace := trace s @ [Decode response]\<rparr>"
  using assms by (simp add: parse_unfold)

lemma parse_data [simp]: "data (parseOBDResponse upper react response s) = data s"
  and parse_device [simp]: "device (parseOBDResponse upper react response s) = device s"
  and parse_writeCharacteristic [simp]:
    "writeCharacteristic (parseOBDResponse upper react response s) = writeCharacteristic s"
  and parse_pollingInterval [simp]:
    "pollingInterval (parseOBDResponse upper react response s) = pollingInterval s"
  and parse_responseBuffer [simp]:
    "responseBuffer (parseOBDResponse upper react response s) = responseBuffer s"
  by (simp_all add: parse_unfold)

lemma parse_snapshot:
  "snapshot (parseOBDResponse upper react response s) =
     (if startsWith (clean upper response) (str ''41'')
      then decodePid (pidOf upper response) (dataBytesOf upper response) (snapshot s)
      else snapshot s)"
  by (simp add: parse_unfold) (simp add: snapshot_def)

lemma parse_trace:
  "trace (parseOBDResponse upper react response s) =
     trace s @ Decode response #
       (if startsWith (clean upper response) (str ''41'')
        then map (\<lambda>(a, l). Delivered l a) (enumerate (fresh s) (listeners s))
        else [])"
  by (simp add: parse_unfold notify_trace)

text \<open>
  A response that starts with 41 is published: every listener is called with a new
  object that holds the snapshot after the switch.
\<close>

lemma parse_reaches:
  assumes "startsWith (clean upper response) (str ''41'')" and "l \<in> set (listeners s)"
  shows "\<exists>a. Delivered l a \<in>
               set (drop (length (trace s)) (trace (parseOBDResponse upper react response s))) \<and>
             heap (parseOBDResponse upper react response s) a =
               snapshot (parseOBDResponse upper react response s)"
proof -
  let ?s1 = "s\<lparr>trace := trace s @ [Decode response],
      heap := (heap s)(data s :=
         decodePid (pidOf upper response) (dataBytesOf upper response) (heap s (data s)))\<rparr>"
  have p: "parseOBDResponse upper react response s = notifyListeners react ?s1"
    using assms(1) by (simp add: parse_unfold)
  from assms(2) have "l \<in> set (listeners ?s1)" by simp
  from notify_reaches [OF this, of react]
  obtain a where a: "Delivered l a \<in>
        set (drop (length (trace ?s1)) (trace (notifyListeners react ?s1)))"
      "heap (notifyListeners react ?s1) a = snapshot ?s1"
    by blast
  have "set (drop (length (trace ?s1)) (trace (notifyListeners react ?s1))) \<subseteq>
      set (drop (length (trace s)) (trace (notifyListeners react ?s1)))"
    by (auto simp add: notify_trace)
  with a(1) have "Delivered l a \<in>
      set (drop (length (trace s)) (trace (notifyListeners react ?s1)))"
    by blast
  moreover have "snapshot (notifyListeners react ?s1) = snapshot ?s1" by simp
  ultimately show ?thesis
    using a(2) unfolding p by (intro exI [of _ a]) simp
qed

subsection \<open>The switch, entry by entry\<close>

lemma pidTable_cases:
  assumes "map_of pidTable pid = Some (n, f)"
  shows "pid = str ''0C'' \<and> n = 4 \<and> f = Rpm \<or> pid = str ''0D'' \<and> n = 2 \<and> f = Speed \<or>
     pid = str ''05'' \<and> n = 2 \<and> f = CoolantTemp \<or> pid = str ''04'' \<and> n = 2 \<and> f = EngineLoad \<or>
     pid = str ''11'' \<and> n = 2 \<and> f = ThrottlePosition \<or> pid = str ''2F'' \<and> n = 2 \<and> f = FuelLevel \<or>
     pid = str ''5E'' \<and> n = 4 \<and> f = FuelRate \<or> pid = str ''0A'' \<and> n = 2 \<and> f = FuelPressure \<or>
     pid = str ''0B'' \<and> n = 2 \<and> f = BoostPressure \<or> pid = str ''10'' \<and> n = 4 \<and> f = MafRate \<or>
     pid = str ''0F'' \<and> n = 2 \<and> f = IntakeAirTemp \<or>
     pid = str ''33'' \<and> n = 2 \<and> f = BarometricPressure \<or>
     pid = str ''5C'' \<and> n = 2 \<and> f = OilTemp \<or> pid = str ''46'' \<and> n = 2 \<and> f = AmbientTemp \<or>
     pid = str ''62'' \<and> n = 2 \<and> f = ActualTorque \<or> pid = str ''63'' \<and> n = 4 \<and> f = ReferenceTorque \<or>
     pid = str ''49'' \<and> n = 2 \<and> f = AcceleratorPosition \<or>
     pid = str ''2C'' \<and> n = 2 \<and> f = EgrCommanded \<or> pid = str ''2D'' \<and> n = 2 \<and> f = EgrError \<or>
     pid = str ''42'' \<and> n = 4 \<and> f = BatteryVoltage \<or> pid = str ''1F'' \<and> n = 4 \<and> f = RunTime"
proof -
  from assms have "(pid, n, f) \<in> set pidTable" by (rule map_of_SomeD)
  then show ?thesis by (simp add: pidTable_def)
qed

text \<open>A payload shorter than the guard of its case asks: nothing is assigned.\<close>

lemma decodePid_truncated:
  assumes "map_of pidTable pid = Some (n, f)" and "length dataBytes < n"
  shows "decodePid pid dataBytes d = d"
  using pidTable_cases [OF assms(1)] assms(2)
  by (elim disjE conjE; simp add: decodePid_def)

lemma decodePid_unknown_pid:
  assumes "map_of pidTable pid = None"
  shows "decodePid pid dataBytes d = d"
proof -
  from assms have "pid \<notin> fst ` set pidTable" by (simp add: map_of_eq_None_iff)
  then show ?thesis by (simp add: decodePid_def pidTable_def)
qed

text \<open>A case of the switch assigns to its own field and to no other.\<close>

lemma decodePid_frame:
  assumes "\<not> (\<exists>n. map_of pidTable pid = Some (n, f) \<and> n \<le> length dataBytes)"
  shows "fieldValue f (decodePid pid dataBytes d) = fieldValue f d"
proof (cases "map_of pidTable pid")
  case None
  then show ?thesis by (simp add: decodePid_unknown_pid)
next
  case (Some e)
  obtain n g where e: "e = (n, g)" by (cases e)
  show ?thesis
  proof (cases "n \<le> length dataBytes")
    case False
    with Some e show ?thesis by (simp add: decodePid_truncated [of pid n g])
  next
    case True
    with assms Some e have ne: "g \<noteq> f" by auto
    from Some e have m: "map_of pidTable pid = Some (n, g)" by simp
    from pidTable_cases [OF m] ne show ?thesis
      using True
      by (elim disjE conjE; simp add: decodePid_def; cases f; simp)
  qed
qed

lemma decodePid_status:
  "isConnected (decodePid pid dataBytes d) = isConnected d \<and>
   deviceName (decodePid pid dataBytes d) = deviceName d"
  by (simp add: decodePid_def)

subsection \<open>Disconnecting\<close>

lemma stopPolling_eq: "stopPolling s = s\<lparr>pollingInterval := None\<rparr>"
  by (cases s) (simp add: stopPolling_def)

lemma disconnect_ok:
  assumes "cancelOk \<or> device s = None"
  shows "disconnect react cancelOk s =
     (None, notifyListeners react
              (s\<lparr>pollingInterval := None, device := None, writeCharacteristic := None,
                 heap := (heap s)(fresh s := INITIAL_OBD_DATA), fresh := Suc (fresh s),
                 data := fresh s\<rparr>))"
  using assms
  by (cases s) (auto simp add: disconnect_def stopPolling_def alloc_def Let_def)

lemma disconnect_rejected:
  assumes "\<not> cancelOk" and "device s \<noteq> None"
  shows "disconnect react cancelOk s = (Some CancelRejected, s\<lparr>pollingInterval := None\<rparr>)"
  using assms by (simp add: disconnect_def stopPolling_eq Let_def)

lemma disconnect_resets:
  assumes "cancelOk \<or> device s = None"
  shows "snapshot (snd (disconnect react cancelOk s)) = INITIAL_OBD_DATA"
  by (simp add: disconnect_ok [OF assms]) (simp add: snapshot_def)

subsection \<open>Responses that pass the checks with a payload that is not hexadecimal\<close>

lemma ZZZZ_facts:
  "startsWith (clean upper (str ''410CZZZZ'')) (str ''41'')"
  "pidOf upper (str ''410CZZZZ'') = str ''0C''"
  "dataBytesOf upper (str ''410CZZZZ'') = str ''ZZZZ''"
  "parseTwoBytes (str ''ZZZZ'') = NaN"
  "decodesField upper (str ''410CZZZZ'') Rpm" "hexDigit (cu (CHR ''Z'')) = None"
  by code_simp+

lemma rpm_ZZZZ: "rpm (decodePid (str ''0C'') (str ''ZZZZ'') d) = NaN"
  by (simp add: decodePid_def ZZZZ_facts)

text \<open>
  C10. The response \<^verbatim>\<open>410CZZZZ\<close> passes the checks of the decoder (it starts with 41,
  0C is a case of the switch, and the payload has the four characters that the case
  asks for) and no character of its payload is a hexadecimal digit. In any state and
  with any listeners, the decoder then stores NaN in \<open>rpm\<close> and calls every listener
  with a copy of the snapshot that holds that NaN.
\<close>

theorem nan_is_published:
  "decodesField upper (str ''410CZZZZ'') Rpm \<and>
   dataBytesOf upper (str ''410CZZZZ'') = str ''ZZZZ'' \<and> hexDigit (cu (CHR ''Z'')) = None \<and>
   rpm (snapshot (parseOBDResponse upper react (str ''410CZZZZ'') s)) = NaN \<and>
   (\<forall>l \<in> set (listeners s).
      \<exists>a. Delivered l a \<in>
             set (drop (length (trace s))
                    (trace (parseOBDResponse upper react (str ''410CZZZZ'') s))) \<and>
          rpm (heap (parseOBDResponse upper react (str ''410CZZZZ'') s) a) = NaN)"
proof -
  have r: "rpm (snapshot (parseOBDResponse upper react (str ''410CZZZZ'') s)) = NaN"
    by (simp add: parse_snapshot ZZZZ_facts rpm_ZZZZ)
  have "\<exists>a. Delivered l a \<in>
             set (drop (length (trace s))
                    (trace (parseOBDResponse upper react (str ''410CZZZZ'') s))) \<and>
          rpm (heap (parseOBDResponse upper react (str ''410CZZZZ'') s) a) = NaN"
    if "l \<in> set (listeners s)" for l
    using parse_reaches [OF ZZZZ_facts(1) that, of upper react] r by auto
  with r show ?thesis
    by (simp add: ZZZZ_facts)
qed

theorem nan_is_published_witness:
  "listeners (subscribe quiet 2 (subscribe quiet 1 newService)) = [1, 2] \<and>
   (\<exists>a. Delivered 1 a \<in>
      set (drop (length (trace (subscribe quiet 2 (subscribe quiet 1 newService))))
        (trace (parseOBDResponse latin1Upper quiet (str ''410CZZZZ'')
                 (subscribe quiet 2 (subscribe quiet 1 newService))))) \<and>
      rpm (heap (parseOBDResponse latin1Upper quiet (str ''410CZZZZ'')
                   (subscribe quiet 2 (subscribe quiet 1 newService))) a) = NaN) \<and>
   (\<exists>a. Delivered 2 a \<in>
      set (drop (length (trace (subscribe quiet 2 (subscribe quiet 1 newService))))
        (trace (parseOBDResponse latin1Upper quiet (str ''410CZZZZ'')
                 (subscribe quiet 2 (subscribe quiet 1 newService))))) \<and>
      rpm (heap (parseOBDResponse latin1Upper quiet (str ''410CZZZZ'')
                   (subscribe quiet 2 (subscribe quiet 1 newService))) a) = NaN)"
proof -
  have l: "listeners (subscribe quiet 2 (subscribe quiet 1 newService)) = [1, 2]"
    by code_simp
  from nan_is_published
    [of latin1Upper quiet "subscribe quiet 2 (subscribe quiet 1 newService)"]
  show ?thesis
    unfolding l by simp
qed

text \<open>
  The checks are made on the cleaned response, and \<^verbatim>\<open>toUpperCase\<close> can lengthen a
  text: \<^verbatim>\<open>410C1A\<close> followed by a sharp s is cleaned to \<^verbatim>\<open>410C1ASS\<close>, whose payload
  has the four characters that the RPM asks for, and \<open>rpm\<close> becomes NaN.
\<close>

lemma sharp_s_is_decoded:
  "clean latin1Upper (str ''410C1A'' @ [0xDF]) = str ''410C1ASS'' \<and>
   decodesField latin1Upper (str ''410C1A'' @ [0xDF]) Rpm \<and>
   rpm (snapshot (parseOBDResponse latin1Upper quiet (str ''410C1AF8'') newService)) =
     Num 1726 \<and>
   rpm (snapshot (parseOBDResponse latin1Upper quiet (str ''410C1A'' @ [0xDF])
          (parseOBDResponse latin1Upper quiet (str ''410C1AF8'') newService))) = NaN"
  by code_simp

subsection \<open>Responses that are discarded\<close>

lemma clean_command:
  "startsWith (clean upper (cu (CHR ''0'') # cu (CHR ''1'') # rest)) (str ''41'') = False"
  "startsWith (clean upper (cu (CHR ''A'') # cu (CHR ''T'') # rest)) (str ''41'') = False"
proof -
  have f: "\<not> isSpace (cu (CHR ''0''))" "\<not> isSpace (cu (CHR ''1''))"
    "\<not> isSpace (cu (CHR ''A''))" "\<not> isSpace (cu (CHR ''T''))"
    "cu (CHR ''0'') < 0x80" "cu (CHR ''1'') < 0x80"
    "cu (CHR ''A'') < 0x80" "cu (CHR ''T'') < 0x80"
    "upperAscii (cu (CHR ''0'')) \<noteq> cu (CHR ''4'')"
    "upperAscii (cu (CHR ''A'')) \<noteq> cu (CHR ''4'')"
    by code_simp+
  have g: "toUpperCase upper (c # d # xs) = upperAscii c # upperAscii d # toUpperCase upper xs"
    if "c < 0x80" "d < 0x80" for c d xs
    using that by simp
  show
    "startsWith (clean upper (cu (CHR ''0'') # cu (CHR ''1'') # rest)) (str ''41'') = False"
    by (simp add: clean_def startsWith_def f g str_Cons
        del: toUpperCase.simps take_str)
  show
    "startsWith (clean upper (cu (CHR ''A'') # cu (CHR ''T'') # rest)) (str ''41'') = False"
    by (simp add: clean_def startsWith_def f g str_Cons
        del: toUpperCase.simps take_str)
qed

lemma NODATA_clean: "startsWith (clean upper (str ''NODATA'')) (str ''41'') = False"
  by code_simp

text \<open>
  C4. The text \<^verbatim>\<open>NODATA\<close>, every response that does not start with 41 once it is
  cleaned, and so every echo of a command that the service sends (a request \<^verbatim>\<open>01..\<close>
  or a command \<^verbatim>\<open>AT..\<close>, whatever follows it), leave the service as it was: nothing
  but the log of the call changes. A response that starts with 41 and whose payload
  has fewer characters than the case of its PID asks for leaves every field of the
  snapshot as it was, and the object \<^verbatim>\<open>this.data\<close> stays the same object; the
  listeners are called with copies of the unchanged snapshot. The prefix, the PID and
  the payload are those of the cleaned response. The decoder is a total function with
  no error among its results.
\<close>

theorem malformed_discarded:
  "parseOBDResponse upper react (str ''NODATA'') s =
     s\<lparr>trace := trace s @ [Decode (str ''NODATA'')]\<rparr> \<and>
   (\<not> startsWith (clean upper response) (str ''41'') \<longrightarrow>
      parseOBDResponse upper react response s =
        s\<lparr>trace := trace s @ [Decode response]\<rparr>) \<and>
   parseOBDResponse upper react (str ''01'' @ rest) s =
     s\<lparr>trace := trace s @ [Decode (str ''01'' @ rest)]\<rparr> \<and>
   parseOBDResponse upper react (str ''AT'' @ rest) s =
     s\<lparr>trace := trace s @ [Decode (str ''AT'' @ rest)]\<rparr> \<and>
   (startsWith (clean upper response) (str ''41'') \<and>
    map_of pidTable (pidOf upper response) = Some (n, f) \<and>
    length (dataBytesOf upper response) < n \<longrightarrow>
      snapshot (parseOBDResponse upper react response s) = snapshot s \<and>
      data (parseOBDResponse upper react response s) = data s \<and>
      trace (parseOBDResponse upper react response s) =
        trace s @ Decode response #
          map (\<lambda>(a, l). Delivered l a) (enumerate (fresh s) (listeners s)))"
proof -
  have e: "str ''01'' @ rest = cu (CHR ''0'') # cu (CHR ''1'') # rest"
    "str ''AT'' @ rest = cu (CHR ''A'') # cu (CHR ''T'') # rest"
    by (simp_all add: str_Cons)
  have "parseOBDResponse upper react (str ''NODATA'') s =
     s\<lparr>trace := trace s @ [Decode (str ''NODATA'')]\<rparr>"
    by (rule parse_discarded) (simp add: NODATA_clean)
  moreover have "parseOBDResponse upper react (str ''01'' @ rest) s =
     s\<lparr>trace := trace s @ [Decode (str ''01'' @ rest)]\<rparr>"
    by (rule parse_discarded) (simp add: e clean_command)
  moreover have "parseOBDResponse upper react (str ''AT'' @ rest) s =
     s\<lparr>trace := trace s @ [Decode (str ''AT'' @ rest)]\<rparr>"
    by (rule parse_discarded) (simp add: e clean_command)
  moreover have "snapshot (parseOBDResponse upper react response s) = snapshot s"
    if "startsWith (clean upper response) (str ''41'')"
      and "map_of pidTable (pidOf upper response) = Some (n, f)"
      and "length (dataBytesOf upper response) < n"
    using that by (simp add: parse_snapshot decodePid_truncated [of _ n f])
  ultimately show ?thesis
    by (simp add: parse_discarded parse_trace)
qed

theorem malformed_discarded_witness:
  "\<not> startsWith (clean latin1Upper (str ''SEARCHING...'')) (str ''41'') \<and>
   parseOBDResponse latin1Upper quiet (str ''SEARCHING...'') readyService =
     readyService\<lparr>trace := trace readyService @ [Decode (str ''SEARCHING...'')]\<rparr> \<and>
   startsWith (clean latin1Upper (str ''41 0C 1A'')) (str ''41'') \<and>
   map_of pidTable (pidOf latin1Upper (str ''41 0C 1A'')) = Some (4, Rpm) \<and>
   length (dataBytesOf latin1Upper (str ''41 0C 1A'')) < 4 \<and>
   snapshot (parseOBDResponse latin1Upper quiet (str ''41 0C 1A'') readyService) =
     snapshot readyService"
proof -
  have a: "\<not> startsWith (clean latin1Upper (str ''SEARCHING...'')) (str ''41'')"
    and b: "startsWith (clean latin1Upper (str ''41 0C 1A'')) (str ''41'')"
    and c: "map_of pidTable (pidOf latin1Upper (str ''41 0C 1A'')) = Some (4, Rpm)"
    and d: "length (dataBytesOf latin1Upper (str ''41 0C 1A'')) < 4"
    by code_simp+
  from malformed_discarded
    [of latin1Upper quiet readyService "str ''SEARCHING...''" "[]" 4 Rpm] a
  have "parseOBDResponse latin1Upper quiet (str ''SEARCHING...'') readyService =
     readyService\<lparr>trace := trace readyService @ [Decode (str ''SEARCHING...'')]\<rparr>"
    by (elim conjE) simp
  moreover from malformed_discarded
    [of latin1Upper quiet readyService "str ''41 0C 1A''" "[]" 4 Rpm] b c d
  have "snapshot (parseOBDResponse latin1Upper quiet (str ''41 0C 1A'') readyService) =
     snapshot readyService"
    by (elim conjE) simp
  ultimately show ?thesis
    using a b c d by simp
qed

subsection \<open>Fields keep their values\<close>

lemma parse_frame:
  assumes "\<not> decodesField upper response f"
  shows "fieldValue f (snapshot (parseOBDResponse upper react response s)) =
         fieldValue f (snapshot s)"
proof (cases "startsWith (clean upper response) (str ''41'')")
  case False
  then show ?thesis by (simp add: parse_snapshot)
next
  case True
  with assms have "\<not> (\<exists>n. map_of pidTable (pidOf upper response) = Some (n, f) \<and>
      n \<le> length (dataBytesOf upper response))"
    by (auto simp add: decodesField_def)
  from decodePid_frame [OF this] True show ?thesis
    by (simp add: parse_snapshot)
qed

lemma fieldValue_initial: "fieldValue f INITIAL_OBD_DATA = Num 0"
  by (cases f) (simp_all add: INITIAL_OBD_DATA_def)

text \<open>
  C9, as the code has it. Every numeric field is zero in the snapshot of a new
  service, and again after a \<^verbatim>\<open>disconnect\<close> that went through. Whatever responses the
  decoder is given, one after the other, a field keeps the value it had as long as
  none of them passes the checks that the decoder makes before it assigns that field
  (the prefix 41, the PID of the field, the length of the payload): a response that
  is discarded, truncated or for another PID does not touch it. Whether the payload
  is hexadecimal is no part of those checks.
\<close>

theorem fields_retained:
  assumes "\<forall>r \<in> set rs. \<not> decodesField upper r f"
  shows "fieldValue f (snapshot (foldl (\<lambda>st r. parseOBDResponse upper react r st) s rs)) =
           fieldValue f (snapshot s) \<and>
         fieldValue f (snapshot newService) = Num 0 \<and>
         (cancelOk \<or> device s = None \<longrightarrow>
            fieldValue f (snapshot (snd (disconnect react cancelOk s))) = Num 0)"
proof -
  from assms
  have "fieldValue f (snapshot (foldl (\<lambda>st r. parseOBDResponse upper react r st) s rs)) =
           fieldValue f (snapshot s)"
  proof (induction rs arbitrary: s)
    case Nil
    show ?case by simp
  next
    case (Cons r rs)
    from Cons.prems have "\<not> decodesField upper r f"
      and "\<forall>r \<in> set rs. \<not> decodesField upper r f"
      by simp_all
    with Cons.IH [of "parseOBDResponse upper react r s"]
      parse_frame [of upper r f react s]
    show ?case by simp
  qed
  moreover have "snapshot newService = INITIAL_OBD_DATA"
    by (simp add: snapshot_def newService_def)
  ultimately show ?thesis
    by (simp add: fieldValue_initial disconnect_resets)
qed

theorem fields_retained_witness:
  "\<not> decodesField latin1Upper (str ''NO DATA'') Rpm \<and>
   \<not> decodesField latin1Upper (str ''41 0C 1A'') Rpm \<and>
   \<not> decodesField latin1Upper (str ''410D50'') Rpm \<and>
   rpm (snapshot (parseOBDResponse latin1Upper quiet (str ''410C1AF8'') newService)) =
     Num 1726 \<and>
   rpm (snapshot (foldl (\<lambda>st r. parseOBDResponse latin1Upper quiet r st)
          (parseOBDResponse latin1Upper quiet (str ''410C1AF8'') newService)
          [str ''NO DATA'', str ''41 0C 1A'', str ''410D50''])) = Num 1726 \<and>
   device newService = None \<and>
   rpm (snapshot (snd (disconnect quiet False newService))) = Num 0"
proof -
  have h: "\<not> decodesField latin1Upper (str ''NO DATA'') Rpm"
    "\<not> decodesField latin1Upper (str ''41 0C 1A'') Rpm"
    "\<not> decodesField latin1Upper (str ''410D50'') Rpm"
    by code_simp+
  have v: "rpm (snapshot (parseOBDResponse latin1Upper quiet (str ''410C1AF8'') newService)) =
     Num 1726"
    by code_simp
  have d: "device newService = None" by (simp add: newService_def)
  from h have "\<forall>r \<in> set [str ''NO DATA'', str ''41 0C 1A'', str ''410D50''].
      \<not> decodesField latin1Upper r Rpm"
    by simp
  from fields_retained [OF this, of quiet
      "parseOBDResponse latin1Upper quiet (str ''410C1AF8'') newService" False]
  have "rpm (snapshot (foldl (\<lambda>st r. parseOBDResponse latin1Upper quiet r st)
          (parseOBDResponse latin1Upper quiet (str ''410C1AF8'') newService)
          [str ''NO DATA'', str ''41 0C 1A'', str ''410D50''])) = Num 1726"
    using v by simp
  moreover from fields_retained [of "[]" latin1Upper Rpm quiet newService False] d
  have "rpm (snapshot (snd (disconnect quiet False newService))) = Num 0"
    by simp
  ultimately show ?thesis
    using h v d by simp
qed

text \<open>
  Against the claim: an answer that is garbled passes the checks when its prefix, its
  PID and the length of its payload are right, and \<^verbatim>\<open>parseInt\<close> reads the
  hexadecimal digits up to the first character that is none. After \<^verbatim>\<open>410D50\<close> the
  speed is 80, and the garbled \<^verbatim>\<open>410D0Z\<close> sets it to 0; after \<^verbatim>\<open>410C1AF8\<close> the RPM
  is 1726, and the garbled \<^verbatim>\<open>410C0Z0Z\<close> sets it to 0.
\<close>

theorem garbled_resets_counterexample:
  "hexDigit (cu (CHR ''Z'')) = None \<and>
   speed (snapshot (parseOBDResponse latin1Upper quiet (str ''410D50'') newService)) =
     Num 80 \<and>
   speed (snapshot (parseOBDResponse latin1Upper quiet (str ''410D0Z'')
            (parseOBDResponse latin1Upper quiet (str ''410D50'') newService))) = Num 0 \<and>
   rpm (snapshot (parseOBDResponse latin1Upper quiet (str ''410C1AF8'') newService)) =
     Num 1726 \<and>
   rpm (snapshot (parseOBDResponse latin1Upper quiet (str ''410C0Z0Z'')
          (parseOBDResponse latin1Upper quiet (str ''410C1AF8'') newService))) = Num 0"
  by code_simp

subsection \<open>Chunks\<close>

lemma handle_unfold:
  "handleResponse toText upper react bytes s =
     (if cu (CHR ''>'') \<in> set (responseBuffer s @ toText bytes)
      then (foldl (\<lambda>st line. parseOBDResponse upper react (trim line) st)
              (s\<lparr>responseBuffer := responseBuffer s @ toText bytes\<rparr>)
              (split_str (cu (CHR ''>'')) (responseBuffer s @ toText bytes)))
             \<lparr>responseBuffer := []\<rparr>
      else s\<lparr>responseBuffer := responseBuffer s @ toText bytes\<rparr>)"
  by (simp add: handleResponse_def Let_def)

text \<open>
  A chunk that brings no terminator to a buffer without one is only appended; the chunk
  after it is handled as if the two had come as one, when the text of the two chunks
  is the text of the first followed by the text of the second.
\<close>

lemma handle_append:
  assumes "cu (CHR ''>'') \<notin> set (responseBuffer s @ toText chunk1)"
    and "toText (chunk1 @ chunk2) = toText chunk1 @ toText chunk2"
  shows "handleResponse toText upper react chunk2
           (handleResponse toText upper react chunk1 s) =
         handleResponse toText upper react (chunk1 @ chunk2) s"
proof -
  from assms(1)
  have one: "handleResponse toText upper react chunk1 s =
      s\<lparr>responseBuffer := responseBuffer s @ toText chunk1\<rparr>"
    by (simp add: handle_unfold)
  show ?thesis
    unfolding one by (simp add: handle_unfold assms(2))
qed

text \<open>Bytes of ASCII are decoded one by one, whatever follows them.\<close>

lemma utf8Slice_ascii_append:
  assumes "\<forall>b \<in> set bs. b < 0x80"
  shows "utf8Slice (bs @ cs) = bs @ utf8Slice cs"
  using assms by (induction bs) simp_all

lemma utf8Text_ascii_append:
  assumes "\<forall>c \<in> set chunk1. (of_char c :: nat) < 0x80"
  shows "utf8Text (chunk1 @ chunk2) = utf8Text chunk1 @ utf8Text chunk2"
proof -
  from assms have a: "\<forall>b \<in> set (map of_char chunk1). (b :: nat) < 0x80" by simp
  from utf8Slice_ascii_append [OF a, of "map of_char chunk2"]
    utf8Slice_ascii_append [OF a, of "[]"]
  show ?thesis by (simp add: utf8Text_def)
qed

text \<open>
  C6, as the code has it. Each notification is decoded to text on its own. From an
  empty buffer, a response split into two chunks with no terminator in the text of
  the first and the terminator in the text of the second leaves the service in the
  same state as the two chunks delivered as one, when the text of the whole is the
  text of the first chunk followed by the text of the second: the same log, so the
  same calls of the decoder with the same arguments in the same order, the same store
  and the same snapshot. The first chunk alone is only buffered. For the decoder
  \<open>utf8Text\<close> the condition holds whenever the first chunk is ASCII.
\<close>

theorem split_chunks:
  assumes "responseBuffer s = []"
    and "cu (CHR ''>'') \<notin> set (toText chunk1)"
    and "cu (CHR ''>'') \<in> set (toText chunk2)"
    and "toText (chunk1 @ chunk2) = toText chunk1 @ toText chunk2"
  shows "handleResponse toText upper react chunk1 s =
           s\<lparr>responseBuffer := toText chunk1\<rparr> \<and>
         handleResponse toText upper react chunk2
             (handleResponse toText upper react chunk1 s) =
           handleResponse toText upper react (chunk1 @ chunk2) s \<and>
         handleResponse toText upper react (chunk1 @ chunk2) s =
           (foldl (\<lambda>st line. parseOBDResponse upper react (trim line) st)
              (s\<lparr>responseBuffer := toText (chunk1 @ chunk2)\<rparr>)
              (split_str (cu (CHR ''>'')) (toText (chunk1 @ chunk2))))
             \<lparr>responseBuffer := []\<rparr> \<and>
         ((\<forall>c \<in> set chunk1. (of_char c :: nat) < 0x80) \<longrightarrow>
            utf8Text (chunk1 @ chunk2) = utf8Text chunk1 @ utf8Text chunk2)"
proof -
  from assms(1,2) have n: "cu (CHR ''>'') \<notin> set (responseBuffer s @ toText chunk1)"
    by simp
  have "handleResponse toText upper react chunk1 s = s\<lparr>responseBuffer := toText chunk1\<rparr>"
    using assms(1,2) by (simp add: handle_unfold)
  moreover note handle_append [OF n assms(4), of upper react]
  moreover have "handleResponse toText upper react (chunk1 @ chunk2) s =
           (foldl (\<lambda>st line. parseOBDResponse upper react (trim line) st)
              (s\<lparr>responseBuffer := toText (chunk1 @ chunk2)\<rparr>)
              (split_str (cu (CHR ''>'')) (toText (chunk1 @ chunk2))))
             \<lparr>responseBuffer := []\<rparr>"
    using assms(1,3,4) by (simp add: handle_unfold)
  moreover have "(\<forall>c \<in> set chunk1. (of_char c :: nat) < 0x80) \<longrightarrow>
      utf8Text (chunk1 @ chunk2) = utf8Text chunk1 @ utf8Text chunk2"
    using utf8Text_ascii_append [of chunk1 chunk2] by blast
  ultimately show ?thesis by simp
qed

theorem split_chunks_witness:
  "responseBuffer (subscribe quiet 7 readyService) = [] \<and>
   cu (CHR ''>'') \<notin> set (utf8Text ''41 0C 1A'') \<and>
   cu (CHR ''>'') \<in> set (utf8Text '' F8 >'') \<and>
   utf8Text (''41 0C 1A'' @ '' F8 >'') = utf8Text ''41 0C 1A'' @ utf8Text '' F8 >'' \<and>
   handleResponse utf8Text latin1Upper quiet '' F8 >''
       (handleResponse utf8Text latin1Upper quiet ''41 0C 1A''
          (subscribe quiet 7 readyService)) =
     handleResponse utf8Text latin1Upper quiet (''41 0C 1A'' @ '' F8 >'')
       (subscribe quiet 7 readyService) \<and>
   trace (handleResponse utf8Text latin1Upper quiet (''41 0C 1A'' @ '' F8 >'')
            (subscribe quiet 7 readyService)) =
     [Delivered 7 0, Decode (str ''41 0C 1A F8''), Delivered 7 1, Decode []] \<and>
   rpm (snapshot (handleResponse utf8Text latin1Upper quiet (''41 0C 1A'' @ '' F8 >'')
                    (subscribe quiet 7 readyService))) = Num 1726"
proof -
  have h: "responseBuffer (subscribe quiet 7 readyService) = []"
    "cu (CHR ''>'') \<notin> set (utf8Text ''41 0C 1A'')"
    "cu (CHR ''>'') \<in> set (utf8Text '' F8 >'')"
    "utf8Text (''41 0C 1A'' @ '' F8 >'') = utf8Text ''41 0C 1A'' @ utf8Text '' F8 >''"
    by code_simp+
  have v: "trace (handleResponse utf8Text latin1Upper quiet (''41 0C 1A'' @ '' F8 >'')
            (subscribe quiet 7 readyService)) =
     [Delivered 7 0, Decode (str ''41 0C 1A F8''), Delivered 7 1, Decode []]"
    "rpm (snapshot (handleResponse utf8Text latin1Upper quiet (''41 0C 1A'' @ '' F8 >'')
                    (subscribe quiet 7 readyService))) = Num 1726"
    by code_simp+
  from split_chunks [OF h, of latin1Upper quiet]
  have "handleResponse utf8Text latin1Upper quiet '' F8 >''
       (handleResponse utf8Text latin1Upper quiet ''41 0C 1A''
          (subscribe quiet 7 readyService)) =
     handleResponse utf8Text latin1Upper quiet (''41 0C 1A'' @ '' F8 >'')
       (subscribe quiet 7 readyService)"
    by (elim conjE)
  with h v show ?thesis by (intro conjI)
qed

text \<open>
  Against the claim: a response with a no-break space, which UTF-8 writes as the two
  bytes C2 A0 and which the decoder drops as white space. Delivered as one chunk, the
  response is decoded to the RPM 1726. Split between the two bytes, with the
  terminator in the second chunk, each chunk is decoded on its own and each half of
  the character becomes the replacement character U+FFFD, which is no white space: the
  decoder is called with another argument, and \<open>rpm\<close> becomes NaN.
\<close>

theorem split_inside_character_counterexample:
  "responseBuffer (subscribe quiet 7 readyService) = [] \<and>
   cu (CHR ''>'') \<notin> set (utf8Text (''41 0C 1A'' @ [CHR 0xC2])) \<and>
   cu (CHR ''>'') \<in> set (utf8Text (CHR 0xA0 # ''F8>'')) \<and>
   trace (handleResponse utf8Text latin1Upper quiet
            ((''41 0C 1A'' @ [CHR 0xC2]) @ CHR 0xA0 # ''F8>'')
            (subscribe quiet 7 readyService)) =
     [Delivered 7 0, Decode (str ''41 0C 1A'' @ [0xA0] @ str ''F8''), Delivered 7 1,
      Decode []] \<and>
   rpm (snapshot (handleResponse utf8Text latin1Upper quiet
                    ((''41 0C 1A'' @ [CHR 0xC2]) @ CHR 0xA0 # ''F8>'')
                    (subscribe quiet 7 readyService))) = Num 1726 \<and>
   trace (handleResponse utf8Text latin1Upper quiet (CHR 0xA0 # ''F8>'')
            (handleResponse utf8Text latin1Upper quiet (''41 0C 1A'' @ [CHR 0xC2])
               (subscribe quiet 7 readyService))) =
     [Delivered 7 0, Decode (str ''41 0C 1A'' @ [0xFFFD, 0xFFFD] @ str ''F8''),
      Delivered 7 1, Decode []] \<and>
   rpm (snapshot (handleResponse utf8Text latin1Upper quiet (CHR 0xA0 # ''F8>'')
                    (handleResponse utf8Text latin1Upper quiet (''41 0C 1A'' @ [CHR 0xC2])
                       (subscribe quiet 7 readyService)))) = NaN"
  by code_simp

subsection \<open>Unsubscribing while the listeners are called\<close>

text \<open>
  C7. When \<^verbatim>\<open>notifyListeners\<close> runs and a listener \<open>u\<close> of the list calls its own
  unsubscribe handle inside its callback, the listeners are still called one by one in
  the order of the list as it was at the start, each exactly once and each with a copy
  of the snapshot; so every other listener of that list, those after \<open>u\<close> included, is
  called. \<open>u\<close> is no longer in the list afterwards. The function has no error among
  its results.
\<close>

theorem unsubscribe_in_callback:
  assumes "u \<in> set (listeners s)" and "u \<in> set (react u)"
  shows "trace (notifyListeners react s) =
           trace s @ map (\<lambda>(a, l). Delivered l a) (enumerate (fresh s) (listeners s)) \<and>
         (\<forall>l \<in> set (listeners s).
            \<exists>a. Delivered l a \<in>
                   set (drop (length (trace s)) (trace (notifyListeners react s))) \<and>
                heap (notifyListeners react s) a = snapshot s) \<and>
         u \<notin> set (listeners (notifyListeners react s))"
proof -
  have "\<exists>a. Delivered l a \<in> set (drop (length (trace s)) (trace (notifyListeners react s))) \<and>
            heap (notifyListeners react s) a = snapshot s"
    if "l \<in> set (listeners s)" for l
    using notify_reaches [OF that, of react] by blast
  moreover from assms have "u \<notin> set (listeners (notifyListeners react s))"
    by (auto simp add: notify_listeners)
  ultimately show ?thesis
    by (simp add: notify_trace)
qed

theorem unsubscribe_in_callback_witness:
  "2 \<in> set (listeners (newService\<lparr>listeners := [1, 2, 3]\<rparr>)) \<and> 2 \<in> set (leaver 2) \<and>
   trace (notifyListeners leaver (newService\<lparr>listeners := [1, 2, 3]\<rparr>)) =
     [Delivered 1 1, Delivered 2 2, Delivered 3 3] \<and>
   2 \<notin> set (listeners (notifyListeners leaver (newService\<lparr>listeners := [1, 2, 3]\<rparr>))) \<and>
   listeners (notifyListeners leaver (newService\<lparr>listeners := [1, 2, 3]\<rparr>)) = [1, 3]"
proof -
  have h: "2 \<in> set (listeners (newService\<lparr>listeners := [1, 2, 3]\<rparr>))" "2 \<in> set (leaver 2)"
    by (simp_all add: leaver_def)
  have e: "trace (newService\<lparr>listeners := [1, 2, 3]\<rparr>) @
      map (\<lambda>(a, l). Delivered l a)
        (enumerate (fresh (newService\<lparr>listeners := [1, 2, 3]\<rparr>))
           (listeners (newService\<lparr>listeners := [1, 2, 3]\<rparr>))) =
      [Delivered 1 1, Delivered 2 2, Delivered 3 3]"
    by (simp add: newService_def)
  have l: "listeners (notifyListeners leaver (newService\<lparr>listeners := [1, 2, 3]\<rparr>)) = [1, 3]"
    by code_simp
  from unsubscribe_in_callback [of 2 "newService\<lparr>listeners := [1, 2, 3]\<rparr>" leaver, OF h]
  have "trace (notifyListeners leaver (newService\<lparr>listeners := [1, 2, 3]\<rparr>)) =
      [Delivered 1 1, Delivered 2 2, Delivered 3 3]"
    and "2 \<notin> set (listeners (notifyListeners leaver (newService\<lparr>listeners := [1, 2, 3]\<rparr>)))"
    unfolding e by blast+
  with h l show ?thesis by (intro conjI)
qed

subsection \<open>What a subscriber is given\<close>

text \<open>
  C2, at a failing input. A listener that subscribes to a new service is called once,
  with the address 0, which is \<^verbatim>\<open>this.data\<close> itself: when a response is decoded
  afterwards, the object that the listener was given reads 1726 where it read 0. The
  objects that \<^verbatim>\<open>notifyListeners\<close> hands out are copies: the one at address 1 still
  reads 1726 after a later response has set the RPM to 1000. \<^verbatim>\<open>getData\<close> gives a copy
  too, at a new address.
\<close>

theorem subscribe_gives_live_object:
  "trace (subscribe quiet 7 newService) = [Delivered 7 0] \<and>
   listeners (subscribe quiet 7 newService) = [7] \<and>
   data (subscribe quiet 7 newService) = 0 \<and>
   fst (getData (subscribe quiet 7 newService)) = 1 \<and>
   rpm (heap (subscribe quiet 7 newService) 0) = Num 0 \<and>
   trace (handleResponse utf8Text latin1Upper quiet ''410C1AF8>''
            (subscribe quiet 7 newService)) =
     [Delivered 7 0, Decode (str ''410C1AF8''), Delivered 7 1, Decode []] \<and>
   rpm (heap (handleResponse utf8Text latin1Upper quiet ''410C1AF8>''
                (subscribe quiet 7 newService)) 0) = Num 1726 \<and>
   rpm (heap (handleResponse utf8Text latin1Upper quiet ''410C1AF8>''
                (subscribe quiet 7 newService)) 1) = Num 1726 \<and>
   rpm (heap (handleResponse utf8Text latin1Upper quiet ''410C0FA0>''
               (handleResponse utf8Text latin1Upper quiet ''410C1AF8>''
                  (subscribe quiet 7 newService))) 0) = Num 1000 \<and>
   rpm (heap (handleResponse utf8Text latin1Upper quiet ''410C0FA0>''
               (handleResponse utf8Text latin1Upper quiet ''410C1AF8>''
                  (subscribe quiet 7 newService))) 1) = Num 1726"
  by code_simp

subsection \<open>Disconnecting twice\<close>

text \<open>
  C8, as the code has it. When the cancellation of the first call resolves, or there is
  no device to cancel, neither call of \<^verbatim>\<open>disconnect\<close> rejects, whatever the transport
  would answer at the second call: the second call finds no device and does not ask.
  After each of the two calls there is no device, no write characteristic and no
  timer, and the snapshot holds the initial values; the buffer is as it was. The second
  call is not without effect: it makes a new initial snapshot and calls every listener
  once more.
\<close>

theorem disconnect_twice:
  assumes "cancelOk \<or> device s = None"
    and "s1 = snd (disconnect react cancelOk s)"
    and "s2 = snd (disconnect react cancelOk2 s1)"
  shows "fst (disconnect react cancelOk s) = None \<and>
         fst (disconnect react cancelOk2 s1) = None \<and>
         device s1 = None \<and> writeCharacteristic s1 = None \<and> pollingInterval s1 = None \<and>
         snapshot s1 = INITIAL_OBD_DATA \<and>
         device s2 = None \<and> writeCharacteristic s2 = None \<and> pollingInterval s2 = None \<and>
         snapshot s2 = INITIAL_OBD_DATA \<and>
         responseBuffer s2 = responseBuffer s1 \<and>
         trace s2 =
           trace s1 @ map (\<lambda>(a, l). Delivered l a) (enumerate (Suc (fresh s1)) (listeners s1))"
proof -
  have one: "fst (disconnect react cancelOk s) = None" "device s1 = None"
    "writeCharacteristic s1 = None" "pollingInterval s1 = None"
    unfolding assms(2) by (simp_all add: disconnect_ok [OF assms(1)])
  have r1: "snapshot s1 = INITIAL_OBD_DATA"
    unfolding assms(2) by (rule disconnect_resets [OF assms(1)])
  from one(2) have d: "cancelOk2 \<or> device s1 = None" by simp
  have two: "fst (disconnect react cancelOk2 s1) = None" "device s2 = None"
    "writeCharacteristic s2 = None" "pollingInterval s2 = None"
    "responseBuffer s2 = responseBuffer s1"
    unfolding assms(3) by (simp_all add: disconnect_ok [OF d])
  have r2: "snapshot s2 = INITIAL_OBD_DATA"
    unfolding assms(3) by (rule disconnect_resets [OF d])
  have t: "trace s2 =
      trace s1 @ map (\<lambda>(a, l). Delivered l a) (enumerate (Suc (fresh s1)) (listeners s1))"
    unfolding assms(3) by (simp add: disconnect_ok [OF d] notify_trace)
  from one r1 two r2 t show ?thesis by simp
qed

theorem disconnect_twice_witness:
  "device (subscribe quiet 7 readyService) = Some (str ''OBDII'') \<and>
   fst (disconnect quiet True (subscribe quiet 7 readyService)) = None \<and>
   fst (disconnect quiet False
          (snd (disconnect quiet True (subscribe quiet 7 readyService)))) = None \<and>
   device (snd (disconnect quiet False
          (snd (disconnect quiet True (subscribe quiet 7 readyService))))) = None \<and>
   snapshot (snd (disconnect quiet False
          (snd (disconnect quiet True (subscribe quiet 7 readyService))))) = INITIAL_OBD_DATA \<and>
   trace (snd (disconnect quiet True (subscribe quiet 7 readyService))) =
     [Delivered 7 0, Delivered 7 2] \<and>
   trace (snd (disconnect quiet False
          (snd (disconnect quiet True (subscribe quiet 7 readyService))))) =
     [Delivered 7 0, Delivered 7 2, Delivered 7 4]"
proof -
  have h: "True \<or> device (subscribe quiet 7 readyService) = None" by simp
  have e: "device (subscribe quiet 7 readyService) = Some (str ''OBDII'')"
    "trace (snd (disconnect quiet True (subscribe quiet 7 readyService))) =
       [Delivered 7 0, Delivered 7 2]"
    "trace (snd (disconnect quiet False
          (snd (disconnect quiet True (subscribe quiet 7 readyService))))) =
     [Delivered 7 0, Delivered 7 2, Delivered 7 4]"
    by code_simp+
  from disconnect_twice [OF h refl refl, of quiet False] e show ?thesis
    by simp
qed

text \<open>
  Against the claim: \<^verbatim>\<open>disconnect\<close> awaits \<^verbatim>\<open>cancelConnection\<close> with nothing to catch
  a rejection. When the library rejects the cancellation, the call rejects, the device
  stays in place, the snapshot is not reset, and a second call asks again and rejects
  again.
\<close>

theorem disconnect_rejects_counterexample:
  "device readyService = Some (str ''OBDII'') \<and>
   fst (disconnect quiet False readyService) = Some CancelRejected \<and>
   device (snd (disconnect quiet False readyService)) = Some (str ''OBDII'') \<and>
   isConnected (snapshot (snd (disconnect quiet False readyService))) \<and>
   fst (disconnect quiet False (snd (disconnect quiet False readyService))) =
     Some CancelRejected"
  by code_simp

subsection \<open>The initialisation of the adapter\<close>

lemma initializeAdapter_unfold:
  assumes "writeCharacteristic s \<noteq> None"
  shows "initializeAdapter writeOk s =
    (if \<not> writeOk (str ''ATZ'' @ CR) then (Some WriteRejected, s)
     else if \<not> writeOk (str ''ATE0'' @ CR) then
       (Some WriteRejected, s\<lparr>trace := trace s @ [Wrote (str ''ATZ'' @ CR), Delayed 1000]\<rparr>)
     else if \<not> writeOk (str ''ATL0'' @ CR) then
       (Some WriteRejected,
        s\<lparr>trace := trace s @ [Wrote (str ''ATZ'' @ CR), Delayed 1000, Wrote (str ''ATE0'' @ CR)]\<rparr>)
     else if \<not> writeOk (str ''ATS0'' @ CR) then
       (Some WriteRejected,
        s\<lparr>trace := trace s @ [Wrote (str ''ATZ'' @ CR), Delayed 1000, Wrote (str ''ATE0'' @ CR),
                               Wrote (str ''ATL0'' @ CR)]\<rparr>)
     else if \<not> writeOk (str ''ATH0'' @ CR) then
       (Some WriteRejected,
        s\<lparr>trace := trace s @ [Wrote (str ''ATZ'' @ CR), Delayed 1000, Wrote (str ''ATE0'' @ CR),
                               Wrote (str ''ATL0'' @ CR), Wrote (str ''ATS0'' @ CR)]\<rparr>)
     else if \<not> writeOk (str ''ATSP0'' @ CR) then
       (Some WriteRejected,
        s\<lparr>trace := trace s @ [Wrote (str ''ATZ'' @ CR), Delayed 1000, Wrote (str ''ATE0'' @ CR),
                               Wrote (str ''ATL0'' @ CR), Wrote (str ''ATS0'' @ CR),
                               Wrote (str ''ATH0'' @ CR)]\<rparr>)
     else
       (None,
        s\<lparr>trace := trace s @ [Wrote (str ''ATZ'' @ CR), Delayed 1000, Wrote (str ''ATE0'' @ CR),
                               Wrote (str ''ATL0'' @ CR), Wrote (str ''ATS0'' @ CR),
                               Wrote (str ''ATH0'' @ CR), Wrote (str ''ATSP0'' @ CR)]\<rparr>))"
proof -
  from assms obtain c where c: "writeCharacteristic s = Some c" by auto
  then show ?thesis
    by (simp add: initializeAdapter_def sendCommand_def delay_def)
qed

lemma initializeAdapter_no_characteristic:
  assumes "writeCharacteristic s = None"
  shows "initializeAdapter writeOk s = (None, s\<lparr>trace := trace s @ [Delayed 1000]\<rparr>)"
  using assms by (simp add: initializeAdapter_def sendCommand_def delay_def)

text \<open>
  C3, as the code has it. With a write characteristic and a transport that accepts
  every write, \<^verbatim>\<open>initializeAdapter\<close> writes ATZ, waits 1000 ms, and writes ATE0, ATL0,
  ATS0, ATH0 and ATSP0, in this order, and succeeds. Whatever the transport accepts,
  what is written is a prefix of that sequence; the initialisation succeeds exactly when
  the six writes are accepted, and otherwise its result is the rejection of the first
  write that is not, with no command written after it. Without a write characteristic
  it succeeds with nothing written. It reads nothing that was received and changes no
  field of the service: each command goes out when the write before it has resolved.
\<close>

theorem initializeAdapter_sequence:
  "(writeCharacteristic s \<noteq> None \<and> (\<forall>w. writeOk w) \<longrightarrow>
      initializeAdapter writeOk s =
        (None, s\<lparr>trace := trace s @
           [Wrote (str ''ATZ'' @ CR), Delayed 1000, Wrote (str ''ATE0'' @ CR),
            Wrote (str ''ATL0'' @ CR),
            Wrote (str ''ATS0'' @ CR), Wrote (str ''ATH0'' @ CR), Wrote (str ''ATSP0'' @ CR)]\<rparr>)) \<and>
   (writeCharacteristic s \<noteq> None \<longrightarrow>
      prefix (trace s) (trace (snd (initializeAdapter writeOk s))) \<and>
      prefix (drop (length (trace s)) (trace (snd (initializeAdapter writeOk s))))
        [Wrote (str ''ATZ'' @ CR), Delayed 1000, Wrote (str ''ATE0'' @ CR),
         Wrote (str ''ATL0'' @ CR),
         Wrote (str ''ATS0'' @ CR), Wrote (str ''ATH0'' @ CR), Wrote (str ''ATSP0'' @ CR)] \<and>
      (fst (initializeAdapter writeOk s) = None \<longleftrightarrow>
         writeOk (str ''ATZ'' @ CR) \<and> writeOk (str ''ATE0'' @ CR) \<and>
         writeOk (str ''ATL0'' @ CR) \<and> writeOk (str ''ATS0'' @ CR) \<and>
         writeOk (str ''ATH0'' @ CR) \<and> writeOk (str ''ATSP0'' @ CR)) \<and>
      (fst (initializeAdapter writeOk s) = None \<or>
       fst (initializeAdapter writeOk s) = Some WriteRejected)) \<and>
   (writeCharacteristic s = None \<longrightarrow>
      initializeAdapter writeOk s = (None, s\<lparr>trace := trace s @ [Delayed 1000]\<rparr>)) \<and>
   (snd (initializeAdapter writeOk s))\<lparr>trace := trace s\<rparr> = s"
proof (cases "writeCharacteristic s = None")
  case True
  then show ?thesis
    by (simp add: initializeAdapter_no_characteristic)
next
  case False
  note u = initializeAdapter_unfold [OF False, of writeOk]
  have a: "(\<forall>w. writeOk w) \<longrightarrow>
      initializeAdapter writeOk s =
        (None, s\<lparr>trace := trace s @
           [Wrote (str ''ATZ'' @ CR), Delayed 1000, Wrote (str ''ATE0'' @ CR),
            Wrote (str ''ATL0'' @ CR),
            Wrote (str ''ATS0'' @ CR), Wrote (str ''ATH0'' @ CR), Wrote (str ''ATSP0'' @ CR)]\<rparr>)"
    by (simp add: u)
  have b: "prefix (trace s) (trace (snd (initializeAdapter writeOk s)))"
    by (simp add: u)
  have c: "prefix (drop (length (trace s)) (trace (snd (initializeAdapter writeOk s))))
        [Wrote (str ''ATZ'' @ CR), Delayed 1000, Wrote (str ''ATE0'' @ CR),
         Wrote (str ''ATL0'' @ CR),
         Wrote (str ''ATS0'' @ CR), Wrote (str ''ATH0'' @ CR), Wrote (str ''ATSP0'' @ CR)]"
    by (simp add: u)
  have d: "fst (initializeAdapter writeOk s) = None \<longleftrightarrow>
         writeOk (str ''ATZ'' @ CR) \<and> writeOk (str ''ATE0'' @ CR) \<and>
         writeOk (str ''ATL0'' @ CR) \<and> writeOk (str ''ATS0'' @ CR) \<and>
         writeOk (str ''ATH0'' @ CR) \<and> writeOk (str ''ATSP0'' @ CR)"
    by (simp add: u)
  have e: "fst (initializeAdapter writeOk s) = None \<or>
       fst (initializeAdapter writeOk s) = Some WriteRejected"
    by (simp add: u)
  have f: "(snd (initializeAdapter writeOk s))\<lparr>trace := trace s\<rparr> = s"
    by (simp add: u)
  from False a b c d e f show ?thesis by blast
qed

theorem initializeAdapter_sequence_witness:
  "writeCharacteristic connectedService \<noteq> None \<and> accepting (str ''ATZ'' @ CR) \<and>
   trace (snd (initializeAdapter accepting connectedService)) =
     [Wrote (str ''ATZ'' @ CR), Delayed 1000, Wrote (str ''ATE0'' @ CR),
      Wrote (str ''ATL0'' @ CR),
      Wrote (str ''ATS0'' @ CR), Wrote (str ''ATH0'' @ CR), Wrote (str ''ATSP0'' @ CR)] \<and>
   \<not> refusing (str ''ATL0'' @ CR) \<and>
   fst (initializeAdapter refusing connectedService) = Some WriteRejected \<and>
   writeCharacteristic newService = None \<and>
   trace (snd (initializeAdapter accepting newService)) = [Delayed 1000]"
proof -
  have h: "writeCharacteristic connectedService \<noteq> None" "\<forall>w. accepting w"
    "\<not> refusing (str ''ATL0'' @ CR)" "writeCharacteristic newService = None"
    "trace connectedService = []" "trace newService = []"
    by (simp_all add: connectedService_def newService_def accepting_def refusing_def)
  from initializeAdapter_sequence [of connectedService accepting] h
  have "trace (snd (initializeAdapter accepting connectedService)) =
     [Wrote (str ''ATZ'' @ CR), Delayed 1000, Wrote (str ''ATE0'' @ CR),
      Wrote (str ''ATL0'' @ CR),
      Wrote (str ''ATS0'' @ CR), Wrote (str ''ATH0'' @ CR), Wrote (str ''ATSP0'' @ CR)]"
    by simp
  moreover from initializeAdapter_sequence [of connectedService refusing] h
  have "fst (initializeAdapter refusing connectedService) = Some WriteRejected"
    by auto
  moreover from initializeAdapter_sequence [of newService accepting] h
  have "trace (snd (initializeAdapter accepting newService)) = [Delayed 1000]"
    by simp
  ultimately show ?thesis
    using h by simp
qed

text \<open>
  Against the claim. With an adapter that never answers (nothing is received: the
  buffer stays empty and the decoder is not called) the six commands are all written
  and the initialisation succeeds; the only wait is the delay after ATZ, and no write
  waits for a response or for a timeout. When the write of ATL0 is rejected, the result
  is the rejection of the write, and the device and the characteristic stay in place.
  Without a write characteristic the initialisation succeeds with nothing written.
\<close>

theorem initializeAdapter_counterexample:
  "responseBuffer connectedService = [] \<and> trace connectedService = [] \<and>
   fst (initializeAdapter accepting connectedService) = None \<and>
   trace (snd (initializeAdapter accepting connectedService)) =
     [Wrote (str ''ATZ'' @ CR), Delayed 1000, Wrote (str ''ATE0'' @ CR),
      Wrote (str ''ATL0'' @ CR),
      Wrote (str ''ATS0'' @ CR), Wrote (str ''ATH0'' @ CR), Wrote (str ''ATSP0'' @ CR)] \<and>
   responseBuffer (snd (initializeAdapter accepting connectedService)) = [] \<and>
   fst (initializeAdapter refusing connectedService) = Some WriteRejected \<and>
   trace (snd (initializeAdapter refusing connectedService)) =
     [Wrote (str ''ATZ'' @ CR), Delayed 1000, Wrote (str ''ATE0'' @ CR)] \<and>
   device (snd (initializeAdapter refusing connectedService)) = Some (str ''OBDII'') \<and>
   writeCharacteristic (snd (initializeAdapter refusing connectedService)) = Some (str ''fff2'') \<and>
   fst (initializeAdapter accepting newService) = None \<and>
   trace (snd (initializeAdapter accepting newService)) = [Delayed 1000]"
  by code_simp

subsection \<open>The polling schedule\<close>

lemma runPoll_append:
  "runPoll writeOk pri sec (ts @ us) s =
     runPoll writeOk pri sec us (runPoll writeOk pri sec ts s)"
  by (simp add: runPoll_def)

lemma inTurn_Suc: "inTurn (Suc n) = inTurn n @ [TimerFires, WriteResolves 0]"
proof -
  have "replicate (Suc n) x = replicate n x @ [x]" for x :: "timing list"
    by (simp add: replicate_append_same)
  then show ?thesis
    by (simp add: inTurn_def del: replicate.simps)
qed

lemma tick_arith:
  fixes n :: nat
  shows "n mod 5 = 4 \<Longrightarrow> Suc n div 5 = Suc (n div 5)"
    and "n mod 5 \<noteq> 4 \<Longrightarrow> Suc n div 5 = n div 5"
    and "Suc n - n div 5 = Suc (n - n div 5)"
  by (simp_all add: div_Suc mod_Suc Suc_diff_le)

text \<open>
  The timer fires with no run waiting, and the write resolves before anything else
  happens.
\<close>

lemma turn_secondary:
  assumes "pollingInterval s = Some p" and "waiting p = []"
    and "isConnected (heap s (data s))"
    and "writeCharacteristic s \<noteq> None" and "\<forall>x. writeOk x"
    and "cycleCount p mod 5 = 4" and "secondaryIndex p < length sec"
  shows "runPoll writeOk pri sec [TimerFires, WriteResolves 0] s =
     s\<lparr>trace := trace s @ [Wrote (sec ! secondaryIndex p @ CR)],
       pollingInterval := Some \<lparr>priorityIndex = priorityIndex p,
          secondaryIndex = (secondaryIndex p + 1) mod length sec,
          cycleCount = cycleCount p + 1, waiting = []\<rparr>\<rparr>"
proof -
  from assms(7) have "0 < length sec" by (cases sec) simp_all
  with assms show ?thesis
    by (cases "writeCharacteristic s")
      (simp_all add: runPoll_def timerFires_def writeResolves_def chooseBranch_def
        resumeRun_def sendCommand_def arrayGet_def commandText_def Let_def)
qed

lemma turn_priority:
  assumes "pollingInterval s = Some p" and "waiting p = []"
    and "isConnected (heap s (data s))"
    and "writeCharacteristic s \<noteq> None" and "\<forall>x. writeOk x"
    and "cycleCount p mod 5 \<noteq> 4" and "priorityIndex p < length pri"
  shows "runPoll writeOk pri sec [TimerFires, WriteResolves 0] s =
     s\<lparr>trace := trace s @ [Wrote (pri ! priorityIndex p @ CR)],
       pollingInterval := Some \<lparr>priorityIndex = (priorityIndex p + 1) mod length pri,
          secondaryIndex = secondaryIndex p,
          cycleCount = cycleCount p + 1, waiting = []\<rparr>\<rparr>"
  using assms
  by (cases "writeCharacteristic s")
    (simp_all add: runPoll_def timerFires_def writeResolves_def chooseBranch_def
      resumeRun_def sendCommand_def arrayGet_def commandText_def Let_def)

text \<open>
  The state after the timer has fired \<open>n\<close> times with every write resolved in turn,
  in closed form: firing \<open>k\<close> (counted from zero) writes the \<open>k div 5\<close>-th query of the
  secondary array when \<open>k mod 5 = 4\<close> and the \<open>(k - k div 5)\<close>-th query of the priority
  array otherwise, each array read cyclically.
\<close>

lemma inTurn_closed:
  assumes pri: "pri \<noteq> []" and sec: "sec \<noteq> []"
    and ok: "\<forall>x. writeOk x"
    and p0: "pollingInterval s =
       Some \<lparr>priorityIndex = 0, secondaryIndex = 0, cycleCount = 0, waiting = []\<rparr>"
    and conn: "isConnected (heap s (data s))"
    and wc: "writeCharacteristic s \<noteq> None"
  shows "runPoll writeOk pri sec (inTurn n) s =
     s\<lparr>trace := trace s @
          map (\<lambda>k. Wrote ((if k mod 5 = 4 then sec ! ((k div 5) mod length sec)
                            else pri ! ((k - k div 5) mod length pri)) @ CR)) [0 ..< n],
       pollingInterval := Some \<lparr>priorityIndex = (n - n div 5) mod length pri,
                                secondaryIndex = (n div 5) mod length sec,
                                cycleCount = n, waiting = []\<rparr>\<rparr>"
    (is "_ = ?st n")
proof (induction n)
  case 0
  from p0 show ?case by (simp add: inTurn_def runPoll_def)
next
  case (Suc n)
  from pri sec have lp: "0 < length pri" and ls: "0 < length sec" by simp_all
  let ?p = "\<lparr>priorityIndex = (n - n div 5) mod length pri,
             secondaryIndex = (n div 5) mod length sec, cycleCount = n, waiting = []\<rparr>"
  have st: "pollingInterval (?st n) = Some ?p" "waiting ?p = []"
    "isConnected (heap (?st n) (data (?st n)))" "writeCharacteristic (?st n) \<noteq> None"
    using conn wc by simp_all
  have step: "runPoll writeOk pri sec (inTurn (Suc n)) s =
      runPoll writeOk pri sec [TimerFires, WriteResolves 0] (?st n)"
    using Suc by (simp add: inTurn_Suc runPoll_append)
  show ?case
  proof (cases "n mod 5 = 4")
    case True
    have "runPoll writeOk pri sec [TimerFires, WriteResolves 0] (?st n) = ?st (Suc n)"
      using True ls
      by (subst turn_secondary [OF st(1) st(2) st(3) st(4) ok])
        (simp_all add: mod_Suc_eq tick_arith(1))
    with step show ?thesis by simp
  next
    case False
    have "runPoll writeOk pri sec [TimerFires, WriteResolves 0] (?st n) = ?st (Suc n)"
      using False lp
      by (subst turn_priority [OF st(1) st(2) st(3) st(4) ok])
        (simp_all add: mod_Suc_eq tick_arith(2) tick_arith(3))
    with step show ?thesis by simp
  qed
qed

text \<open>
  As long as no write resolves, the variables of the callback do not move, and every
  firing of the timer writes the first entry of the priority array again.
\<close>

lemma fires_unresolved:
  assumes pri: "pri \<noteq> []"
    and ok: "\<forall>x. writeOk x"
    and p0: "pollingInterval s =
       Some \<lparr>priorityIndex = 0, secondaryIndex = 0, cycleCount = 0, waiting = []\<rparr>"
    and conn: "isConnected (heap s (data s))"
    and wc: "writeCharacteristic s \<noteq> None"
  shows "runPoll writeOk pri sec (replicate m TimerFires) s =
     s\<lparr>trace := trace s @ replicate m (Wrote (pri ! 0 @ CR)),
       pollingInterval := Some \<lparr>priorityIndex = 0, secondaryIndex = 0, cycleCount = 0,
                                waiting = replicate m Priority\<rparr>\<rparr>"
proof (induction m)
  case 0
  from p0 show ?case by (simp add: runPoll_def)
next
  case (Suc m)
  from wc obtain c where c: "writeCharacteristic s = Some c" by auto
  have r: "replicate (Suc m) x = replicate m x @ [x]" for x :: 'b
    by (simp add: replicate_append_same)
  have "runPoll writeOk pri sec (replicate (Suc m) TimerFires) s =
      runPoll writeOk pri sec [TimerFires]
        (runPoll writeOk pri sec (replicate m TimerFires) s)"
    unfolding r [of TimerFires] by (rule runPoll_append)
  also have "\<dots> = s\<lparr>trace := trace s @ replicate (Suc m) (Wrote (pri ! 0 @ CR)),
       pollingInterval := Some \<lparr>priorityIndex = 0, secondaryIndex = 0, cycleCount = 0,
                                waiting = replicate (Suc m) Priority\<rparr>\<rparr>"
    unfolding Suc r [of "Wrote (pri ! 0 @ CR)"] r [of Priority]
    using pri ok conn c
    by (simp add: runPoll_def timerFires_def chooseBranch_def sendCommand_def
        arrayGet_def commandText_def Let_def)
  finally show ?case .
qed

text \<open>
  A write that the transport rejects changes nothing: the next firing of the timer
  finds the variables as they were and tries the same entry again.
\<close>

lemma timerFires_rejected:
  assumes "pollingInterval s = Some p" and "writeCharacteristic s \<noteq> None"
    and "\<forall>x. \<not> writeOk x"
  shows "timerFires writeOk pri sec s = s"
  using assms
  by (cases "writeCharacteristic s")
    (simp_all add: timerFires_def sendCommand_def Let_def)

text \<open>
  C1, as the code has it. On a connected service with a write characteristic, from a
  timer just started, with a transport that accepts every write:
  \<^item> when every write resolves before the timer fires again, the first ten firings
    for the priority array \<open>[A, B, C, D]\<close> and the secondary array \<open>[E, F]\<close> write
    A, B, C, D, E, A, B, C, D, F: the secondary array is read at the firings 4 and 9,
    where the counter is 4 modulo 5, and the priority array at all the others, each
    array from its start again after its last element;
  \<^item> in that timing, for any two non-empty arrays, the state after \<open>n\<close> firings is
    the closed form of the rule;
  \<^item> as long as no write resolves, every firing writes the first entry of the
    priority array again, and the indices and the counter stay at zero.
\<close>

theorem runPoll_schedule:
  assumes p0: "pollingInterval s =
       Some \<lparr>priorityIndex = 0, secondaryIndex = 0, cycleCount = 0, waiting = []\<rparr>"
    and conn: "isConnected (heap s (data s))"
    and wc: "writeCharacteristic s \<noteq> None"
    and ok: "\<forall>x. writeOk x"
    and pri: "pri \<noteq> []" and sec: "sec \<noteq> []"
  shows "runPoll writeOk [A, B, C, D] [E, F] (inTurn 10) s =
       s\<lparr>trace := trace s @
            [Wrote (A @ CR), Wrote (B @ CR), Wrote (C @ CR), Wrote (D @ CR),
             Wrote (E @ CR), Wrote (A @ CR), Wrote (B @ CR), Wrote (C @ CR),
             Wrote (D @ CR), Wrote (F @ CR)],
          pollingInterval :=
            Some \<lparr>priorityIndex = 0, secondaryIndex = 0, cycleCount = 10,
                  waiting = []\<rparr>\<rparr> \<and>
     runPoll writeOk pri sec (inTurn n) s =
       s\<lparr>trace := trace s @
            map (\<lambda>k. Wrote ((if k mod 5 = 4 then sec ! ((k div 5) mod length sec)
                              else pri ! ((k - k div 5) mod length pri)) @ CR)) [0 ..< n],
          pollingInterval := Some \<lparr>priorityIndex = (n - n div 5) mod length pri,
                                   secondaryIndex = (n div 5) mod length sec,
                                   cycleCount = n, waiting = []\<rparr>\<rparr> \<and>
     runPoll writeOk pri sec (replicate m TimerFires) s =
       s\<lparr>trace := trace s @ replicate m (Wrote (pri ! 0 @ CR)),
          pollingInterval := Some \<lparr>priorityIndex = 0, secondaryIndex = 0, cycleCount = 0,
                                   waiting = replicate m Priority\<rparr>\<rparr>"
proof -
  have u: "[0 ..< 10] = [0, 1, 2, 3, 4, 5, 6, 7, 8, 9 :: nat]"
    by (simp add: upt_rec)
  have m: "(2::nat) mod Suc (Suc 0) = 0"
    by (simp add: numeral_2_eq_2)
  have "runPoll writeOk [A, B, C, D] [E, F] (inTurn 10) s =
       s\<lparr>trace := trace s @
            [Wrote (A @ CR), Wrote (B @ CR), Wrote (C @ CR), Wrote (D @ CR),
             Wrote (E @ CR), Wrote (A @ CR), Wrote (B @ CR), Wrote (C @ CR),
             Wrote (D @ CR), Wrote (F @ CR)],
          pollingInterval :=
            Some \<lparr>priorityIndex = 0, secondaryIndex = 0, cycleCount = 10,
                  waiting = []\<rparr>\<rparr>"
    by (simp add: inTurn_closed [OF _ _ ok p0 conn wc] u m)
  moreover note inTurn_closed [OF pri sec ok p0 conn wc, of n]
  moreover note fires_unresolved [OF pri ok p0 conn wc, of sec m]
  ultimately show ?thesis by (intro conjI)
qed

theorem runPoll_schedule_witness:
  "pollingInterval readyService =
     Some \<lparr>priorityIndex = 0, secondaryIndex = 0, cycleCount = 0, waiting = []\<rparr> \<and>
   isConnected (heap readyService (data readyService)) \<and>
   writeCharacteristic readyService \<noteq> None \<and>
   priorityPids \<noteq> [] \<and> secondaryPids \<noteq> [] \<and>
   trace (runPoll accepting [str ''A'', str ''B'', str ''C'', str ''D'']
            [str ''E'', str ''F''] (inTurn 10) readyService) =
     [Wrote (str ''A'' @ CR), Wrote (str ''B'' @ CR), Wrote (str ''C'' @ CR),
      Wrote (str ''D'' @ CR), Wrote (str ''E'' @ CR), Wrote (str ''A'' @ CR),
      Wrote (str ''B'' @ CR), Wrote (str ''C'' @ CR), Wrote (str ''D'' @ CR),
      Wrote (str ''F'' @ CR)] \<and>
   pollingInterval (runPoll accepting priorityPids secondaryPids (inTurn 23) readyService) =
     Some \<lparr>priorityIndex = 3, secondaryIndex = 4, cycleCount = 23, waiting = []\<rparr> \<and>
   trace (runPoll accepting priorityPids secondaryPids (replicate 3 TimerFires)
            readyService) =
     [Wrote (str ''010C'' @ CR), Wrote (str ''010C'' @ CR), Wrote (str ''010C'' @ CR)]"
proof -
  have h1: "pollingInterval readyService =
     Some \<lparr>priorityIndex = 0, secondaryIndex = 0, cycleCount = 0, waiting = []\<rparr>"
    by (simp add: readyService_def startPolling_def)
  have h2: "isConnected (heap readyService (data readyService))"
    by (simp add: readyService_def startPolling_def newService_def)
  have h3: "writeCharacteristic readyService \<noteq> None"
    by (simp add: readyService_def startPolling_def)
  have h4: "\<forall>x. accepting x" by (simp add: accepting_def)
  have h5: "priorityPids \<noteq> []" by (simp add: priorityPids_def)
  have h6: "secondaryPids \<noteq> []" by (simp add: secondaryPids_def)
  have h7: "trace readyService = []"
    by (simp add: readyService_def startPolling_def newService_def)
  have h8: "length priorityPids = 4" "length secondaryPids = 9"
    "priorityPids ! 0 = str ''010C''"
    by (simp_all add: priorityPids_def secondaryPids_def)
  have h9: "replicate 3 x = [x, x, x]" for x :: event
    by (simp add: numeral_3_eq_3)
  from runPoll_schedule [OF h1 h2 h3 h4 h5 h6,
      of "str ''A''" "str ''B''" "str ''C''" "str ''D''" "str ''E''" "str ''F''" 23 3]
    h1 h2 h3 h5 h6 h7 h8 h9
  show ?thesis by simp
qed

text \<open>
  Against the claim. With every write resolved in turn, the ten firings do not write
  the sequence A, B, C, D, A, E, B, C, D, A of the claim: the fifth query is E and the
  tenth is F. And the sequence depends on when the writes resolve: with writes that
  take 400 milliseconds the same ten firings write A, A, A, B, C, D, E, B, C, C.
\<close>

theorem claimed_sequence_counterexample:
  "trace (runPoll accepting [str ''A'', str ''B'', str ''C'', str ''D'']
            [str ''E'', str ''F''] (inTurn 10) readyService) =
     [Wrote (str ''A'' @ CR), Wrote (str ''B'' @ CR), Wrote (str ''C'' @ CR),
      Wrote (str ''D'' @ CR), Wrote (str ''E'' @ CR), Wrote (str ''A'' @ CR),
      Wrote (str ''B'' @ CR), Wrote (str ''C'' @ CR), Wrote (str ''D'' @ CR),
      Wrote (str ''F'' @ CR)] \<and>
   trace (runPoll accepting [str ''A'', str ''B'', str ''C'', str ''D'']
            [str ''E'', str ''F''] (inTurn 10) readyService) \<noteq>
     [Wrote (str ''A'' @ CR), Wrote (str ''B'' @ CR), Wrote (str ''C'' @ CR),
      Wrote (str ''D'' @ CR), Wrote (str ''A'' @ CR), Wrote (str ''E'' @ CR),
      Wrote (str ''B'' @ CR), Wrote (str ''C'' @ CR), Wrote (str ''D'' @ CR),
      Wrote (str ''A'' @ CR)] \<and>
   trace (runPoll accepting [str ''A'', str ''B'', str ''C'', str ''D'']
            [str ''E'', str ''F''] slowWrites readyService) =
     [Wrote (str ''A'' @ CR), Wrote (str ''A'' @ CR), Wrote (str ''A'' @ CR),
      Wrote (str ''B'' @ CR), Wrote (str ''C'' @ CR), Wrote (str ''D'' @ CR),
      Wrote (str ''E'' @ CR), Wrote (str ''B'' @ CR), Wrote (str ''C'' @ CR),
      Wrote (str ''C'' @ CR)]"
  by code_simp

text \<open>
  The arrays of the source in the same two timings, and with a transport that rejects
  the write of the second entry: the rejected query is tried again at every firing.
\<close>

lemma priorityPids_timings:
  "trace (runPoll accepting priorityPids secondaryPids (inTurn 10) readyService) =
     map (\<lambda>c. Wrote (str c @ CR))
       [''010C'', ''010D'', ''010B'', ''0111'', ''0105'',
        ''010C'', ''010D'', ''010B'', ''0111'', ''015C'']"
  "trace (runPoll accepting priorityPids secondaryPids slowWrites readyService) =
     map (\<lambda>c. Wrote (str c @ CR))
       [''010C'', ''010C'', ''010C'', ''010D'', ''010B'',
        ''0111'', ''0105'', ''010D'', ''010B'', ''010B'']"
  "trace (runPoll (\<lambda>w. w \<noteq> str ''010D'' @ CR) priorityPids secondaryPids (inTurn 4)
            readyService) =
     [Wrote (str ''010C'' @ CR)]"
  "pollingInterval
     (runPoll (\<lambda>w. w \<noteq> str ''010D'' @ CR) priorityPids secondaryPids (inTurn 4)
        readyService) =
     Some \<lparr>priorityIndex = 1, secondaryIndex = 0, cycleCount = 1, waiting = []\<rparr>"
  by code_simp+

end
